theory Spec2Isabelle
  imports Complex_Main "HOL-Library.AList"
begin

section \<open>Python values\<close>

text \<open>
  The backend is Python. Its unbounded \<open>int\<close> is \<^typ>\<open>int\<close>, \<open>str\<close> is \<^typ>\<open>string\<close>.
  A \<open>float\<close> is modelled as an exact rational (\<^typ>\<open>rat\<close>): the scoring code only
  multiplies small integer amounts by the configured multipliers, divides by a number of
  teams and adds the results, and the literal \<open>1.8\<close> is read as \<open>9/5\<close>. Rounding of
  IEEE doubles is therefore outside this model.

  A \<open>dict\<close> is an association list in insertion order; \<open>d[k] = v\<close> is
  \<^const>\<open>AList.update\<close> (an existing key keeps its position, a new key is appended),
  \<open>d.get(k)\<close> is \<^const>\<open>map_of\<close> and \<open>d.pop(k, None)\<close> is \<^const>\<open>AList.delete\<close>.

  A raised exception is a value: functions that can raise return \<open>error + 'a\<close>, with
  \<open>Inl\<close> the exception.
\<close>

datatype error = ValueError string | KeyError string | TypeError string | AttributeError string

type_synonym scores = "(string \<times> rat) list"

section \<open>config/scoring\_config.py\<close>

datatype CellType = COMPETITIVE | SYNERGY | SHARED | COOPERATION | PROJECT

definition CELL_MULTIPLIERS :: "(CellType \<times> rat) list" where
  "CELL_MULTIPLIERS =
     [(COMPETITIVE, 3 / 2), (SYNERGY, 9 / 5), (SHARED, 3 / 2), (COOPERATION, 5 / 2),
      (PROJECT, 1)]"

definition COOPERATION_MIN_TEAMS :: int where
  "COOPERATION_MIN_TEAMS = 2"

definition PROJECT_SUCCESS_BONUS_PER_RP :: rat where
  "PROJECT_SUCCESS_BONUS_PER_RP = 1"

section \<open>game/schemas.py: placements and cells\<close>

record CellPlacement =
  team_id :: string
  amount :: int

record BoardCell =
  id_cell :: string
  position :: "int \<times> int"
  type_cell :: CellType
  name_cell :: string
  indices :: "string list"
  placements :: "CellPlacement list"

text \<open>An entry \<open>{team_id, amount}\<close> of \<open>ProjectStatus.contributing_teams\<close>.\<close>

record Contribution =
  team_id :: string
  amount :: int

section \<open>game/scoring.py\<close>

text \<open>
  \<open>max(p.amount for p in placements)\<close>: the largest element, \<open>ValueError\<close> on an empty
  sequence.
\<close>

fun py_max :: "int list \<Rightarrow> error + int" where
  "py_max [] = Inl (ValueError ''max() arg is an empty sequence'')"
| "py_max (x # xs) = Inr (fold max xs x)"

text \<open>
  The loop \<open>for p in placements: scores[p.team_id] = v(p)\<close> starting from the empty
  dict.
\<close>

definition assign_scores :: "(CellPlacement \<Rightarrow> rat) \<Rightarrow> CellPlacement list \<Rightarrow> scores" where
  "assign_scores v ps = fold (\<lambda>p. AList.update (CellPlacement.team_id p) (v p)) ps []"

definition score_competitive :: "CellPlacement list \<Rightarrow> rat \<Rightarrow> error + scores" where
  "score_competitive ps multiplier =
     (case py_max (map CellPlacement.amount ps) of
        Inl e \<Rightarrow> Inl e
      | Inr max_amount \<Rightarrow>
          (let winners = filter (\<lambda>p. CellPlacement.amount p = max_amount) ps;
               total_pool = of_int max_amount * multiplier;
               prize_per_winner = total_pool / of_nat (length winners)
           in Inr (assign_scores
                (\<lambda>p. if CellPlacement.amount p = max_amount then prize_per_winner else 0) ps)))"

definition score_synergy :: "CellPlacement list \<Rightarrow> rat \<Rightarrow> scores" where
  "score_synergy ps multiplier =
     assign_scores (\<lambda>p. of_int (CellPlacement.amount p) * multiplier) ps"

definition score_shared :: "CellPlacement list \<Rightarrow> rat \<Rightarrow> scores" where
  "score_shared ps multiplier =
     (let total = sum_list (map CellPlacement.amount ps);
          total_pool = of_int total * multiplier
      in assign_scores
           (\<lambda>p. if total > 0
                then (of_int (CellPlacement.amount p) / of_int total) * total_pool
                else 0) ps)"

definition score_cooperation :: "CellPlacement list \<Rightarrow> rat \<Rightarrow> scores" where
  "score_cooperation ps multiplier =
     (let min_teams = COOPERATION_MIN_TEAMS
      in if int (length ps) < min_teams
         then assign_scores (\<lambda>p. 0) ps
         else assign_scores (\<lambda>p. of_int (CellPlacement.amount p) * multiplier) ps)"

definition calculate_cell_scores :: "BoardCell \<Rightarrow> error + scores" where
  "calculate_cell_scores cell =
     (let ps = filter (\<lambda>p. CellPlacement.amount p > 0) (BoardCell.placements cell)
      in if ps = [] then Inr []
         else
           (let multiplier =
                  (case map_of CELL_MULTIPLIERS (type_cell cell) of
                     Some m \<Rightarrow> m | None \<Rightarrow> 1)
            in if type_cell cell = COMPETITIVE then score_competitive ps multiplier
               else if type_cell cell = SYNERGY then Inr (score_synergy ps multiplier)
               else if type_cell cell = SHARED then Inr (score_shared ps multiplier)
               else if type_cell cell = COOPERATION then Inr (score_cooperation ps multiplier)
               else Inr []))"

text \<open>The dict returned by \<open>calculate_project_result\<close>.\<close>

record ProjectResult =
  success :: bool
  total_contributed :: int
  teams_contributed :: int
  team_scores :: scores

definition calculate_project_result :: "Contribution list \<Rightarrow> int \<Rightarrow> int \<Rightarrow> ProjectResult" where
  "calculate_project_result contributions min_total min_teams =
     (let total = sum_list (map Contribution.amount contributions);
          num_teams = int (length (filter (\<lambda>c. Contribution.amount c > 0) contributions));
          succ = (total \<ge> min_total \<and> num_teams \<ge> min_teams);
          bonus_per_rp = PROJECT_SUCCESS_BONUS_PER_RP;
          scs = (if succ
                 then fold (\<lambda>c. AList.update (Contribution.team_id c)
                                   (of_int (Contribution.amount c) * bonus_per_rp))
                        contributions []
                 else fold (\<lambda>c. AList.update (Contribution.team_id c) 0) contributions [])
      in \<lparr>success = succ, total_contributed = total, teams_contributed = num_teams,
          team_scores = scs\<rparr>)"

section \<open>config/game\_config.py\<close>

definition MAX_TURNS :: int where
  "MAX_TURNS = 8"

definition RESOURCES_PER_TURN :: int where
  "RESOURCES_PER_TURN = 14"

definition PHASE_EVENT_DURATION :: int where
  "PHASE_EVENT_DURATION = 15"

definition PHASE_ACTION_DURATION :: int where
  "PHASE_ACTION_DURATION = 60"

definition PHASE_RESOLUTION_DURATION :: int where
  "PHASE_RESOLUTION_DURATION = 3"

definition PHASE_RESULT_DURATION :: int where
  "PHASE_RESULT_DURATION = 15"

definition INDEX_MAXIMUM :: int where
  "INDEX_MAXIMUM = 30"

definition STARTING_INDICES :: "(string \<times> int) list" where
  "STARTING_INDICES =
     [(''economy'', 10), (''society'', 10), (''culture'', 10), (''integration'', 10),
      (''environment'', 10), (''science'', 10)]"

definition MAINTENANCE_COST :: "(string \<times> int) list" where
  "MAINTENANCE_COST =
     [(''economy'', 1), (''society'', 1), (''culture'', 1), (''integration'', 1),
      (''environment'', 1), (''science'', 1)]"

section \<open>config/events\_config.py\<close>

text \<open>Event and project names are kept in ASCII; no function reads them.\<close>

record TurnEvent =
  turn :: int
  year :: int
  name_event :: string
  project :: string
  min_total :: int
  min_teams :: int
  success_reward :: "(string \<times> int) list"
  failure_penalty :: "(string \<times> int) list"

definition TURN_EVENTS :: "(int \<times> TurnEvent) list" where
  "TURN_EVENTS =
     [(1, \<lparr>turn = 1, year = 1986, name_event = ''Khung hoang lam phat 774%'',
           project = ''Nghi quyet Khoan 10'', min_total = 20, min_teams = 3,
           success_reward = [(''points'', 8), (''economy'', 4), (''society'', 3)],
           failure_penalty = [(''economy'', - 4), (''society'', - 3)]\<rparr>),
      (2, \<lparr>turn = 2, year = 1987, name_event = ''Cam van quoc te bop nghet'',
           project = ''Luat Dau tu Nuoc ngoai'', min_total = 21, min_teams = 3,
           success_reward = [(''points'', 10), (''integration'', 5), (''economy'', 3)],
           failure_penalty = [(''integration'', - 4), (''economy'', - 3)]\<rparr>),
      (3, \<lparr>turn = 3, year = 1991, name_event = ''Lien Xo sup do, vien tro cham dut'',
           project = ''Tu luc canh sinh'', min_total = 22, min_teams = 3,
           success_reward = [(''points'', 12), (''science'', 4), (''economy'', 4)],
           failure_penalty = [(''economy'', - 4), (''science'', - 3)]\<rparr>),
      (4, \<lparr>turn = 4, year = 1993, name_event = ''Thien tai lu lut mien Trung'',
           project = ''Cuu tro quoc gia'', min_total = 23, min_teams = 3,
           success_reward = [(''points'', 12), (''environment'', 5), (''society'', 3)],
           failure_penalty = [(''environment'', - 4), (''society'', - 3)]\<rparr>),
      (5, \<lparr>turn = 5, year = 1994, name_event = ''Ap luc mo cua kinh te'',
           project = ''My do bo cam van'', min_total = 24, min_teams = 3,
           success_reward = [(''points'', 14), (''integration'', 4), (''economy'', 4)],
           failure_penalty = [(''integration'', - 4), (''economy'', - 3)]\<rparr>),
      (6, \<lparr>turn = 6, year = 1995, name_event = ''Hoi nhap khu vuc'',
           project = ''Gia nhap ASEAN'', min_total = 25, min_teams = 3,
           success_reward = [(''points'', 14), (''integration'', 5), (''culture'', 3)],
           failure_penalty = [(''integration'', - 5), (''culture'', - 4)]\<rparr>),
      (7, \<lparr>turn = 7, year = 2000, name_event = ''Canh tranh toan cau hoa'',
           project = ''Hiep dinh Thuong mai Viet-My'', min_total = 26, min_teams = 3,
           success_reward = [(''points'', 16), (''economy'', 5), (''science'', 3)],
           failure_penalty = [(''economy'', - 5), (''science'', - 4)]\<rparr>),
      (8, \<lparr>turn = 8, year = 2007, name_event = ''Hoi nhap sau rong'',
           project = ''Gia nhap WTO'', min_total = 28, min_teams = 4,
           success_reward =
             [(''points'', 20), (''economy'', 3), (''society'', 3), (''culture'', 3),
              (''integration'', 3), (''environment'', 3), (''science'', 3)],
           failure_penalty =
             [(''economy'', - 5), (''society'', - 5), (''culture'', - 5),
              (''integration'', - 5), (''environment'', - 5), (''science'', - 5)]\<rparr>)]"

definition get_event_by_turn :: "int \<Rightarrow> TurnEvent option" where
  "get_event_by_turn t = map_of TURN_EVENTS t"

section \<open>config/board\_config.py\<close>

record CellConfig =
  name_config :: string
  type_config :: CellType
  indices_config :: "string list"

definition BOARD_CELLS :: "((int \<times> int) \<times> CellConfig) list" where
  "BOARD_CELLS =
     [((0, 0), \<lparr>name_config = ''Cua khau Lang Son'', type_config = COOPERATION,
                indices_config = [''integration'', ''economy'']\<rparr>),
      ((0, 1), \<lparr>name_config = ''Dai hoc Bach khoa'', type_config = SYNERGY,
                indices_config = [''science'', ''society'']\<rparr>),
      ((0, 2), \<lparr>name_config = ''Vien Han lam'', type_config = SYNERGY,
                indices_config = [''science'', ''culture'']\<rparr>),
      ((0, 3), \<lparr>name_config = ''Khu CN Viet Tri'', type_config = COMPETITIVE,
                indices_config = [''economy'', ''environment'']\<rparr>),
      ((1, 0), \<lparr>name_config = ''Dong bang song Hong'', type_config = SHARED,
                indices_config = [''society'', ''environment'']\<rparr>),
      ((1, 1), \<lparr>name_config = ''Du an Quoc gia'', type_config = PROJECT,
                indices_config = []\<rparr>),
      ((1, 2), \<lparr>name_config = ''Du an Quoc gia'', type_config = PROJECT,
                indices_config = []\<rparr>),
      ((1, 3), \<lparr>name_config = ''Cang Da Nang'', type_config = COMPETITIVE,
                indices_config = [''economy'', ''integration'']\<rparr>),
      ((2, 0), \<lparr>name_config = ''Tay Nguyen'', type_config = SYNERGY,
                indices_config = [''environment'', ''economy'']\<rparr>),
      ((2, 1), \<lparr>name_config = ''Du an Quoc gia'', type_config = PROJECT,
                indices_config = []\<rparr>),
      ((2, 2), \<lparr>name_config = ''Du an Quoc gia'', type_config = PROJECT,
                indices_config = []\<rparr>),
      ((2, 3), \<lparr>name_config = ''KCX Tan Thuan'', type_config = COMPETITIVE,
                indices_config = [''economy'', ''science'']\<rparr>),
      ((3, 0), \<lparr>name_config = ''Dong bang Cuu Long'', type_config = SHARED,
                indices_config = [''society'', ''economy'']\<rparr>),
      ((3, 1), \<lparr>name_config = ''Khu do thi Thu Duc'', type_config = SYNERGY,
                indices_config = [''society'', ''science'']\<rparr>),
      ((3, 2), \<lparr>name_config = ''Trung tam Tai chinh'', type_config = COOPERATION,
                indices_config = [''economy'', ''integration'']\<rparr>),
      ((3, 3), \<lparr>name_config = ''Cang Sai Gon'', type_config = COMPETITIVE,
                indices_config = [''economy'', ''integration'']\<rparr>)]"

definition PROJECT_CELLS :: "(int \<times> int) list" where
  "PROJECT_CELLS = [(1, 1), (1, 2), (2, 1), (2, 2)]"

definition PROJECT_CELL_ID :: string where
  "PROJECT_CELL_ID = ''project-center''"

text \<open>\<open>str\<close> of an integer, for the f-string of \<open>create_cell_id\<close>.\<close>

fun str_nat :: "nat \<Rightarrow> string" where
  "str_nat n =
     (if n < 10 then [''0123456789'' ! n]
      else str_nat (n div 10) @ [''0123456789'' ! (n mod 10)])"

definition str_int :: "int \<Rightarrow> string" where
  "str_int i = (if i < 0 then CHR ''-'' # str_nat (nat (- i)) else str_nat (nat i))"

definition create_cell_id :: "int \<times> int \<Rightarrow> string" where
  "create_cell_id pos = ''cell-'' @ str_int (fst pos) @ ''-'' @ str_int (snd pos)"

section \<open>config/regions\_config.py\<close>

datatype RegionId = THU_DO | DUYEN_HAI | TAY_NGUYEN | DONG_BANG | MIEN_DONG

record Region =
  id_region :: RegionId
  name_region :: string
  description :: string

section \<open>room/schemas.py\<close>

datatype RoomStatus = WAITING | PLAYING | PAUSED | FINISHED

datatype GamePhase = EVENT | ACTION | RESOLUTION | RESULT

datatype ClientRole = HOST | PLAYER | SPECTATOR

record Placement =
  cell_id :: string
  amount :: int

record Team =
  id_team :: string
  index_team :: int
  name_team :: string
  region :: Region
  session_token :: string
  score :: int
  resources :: int
  placements :: "Placement list"
  has_submitted :: bool
  is_connected :: bool

section \<open>game/schemas.py\<close>

record NationalIndices =
  economy :: int
  society :: int
  culture :: int
  integration :: int
  environment :: int
  science :: int

text \<open>
  \<open>hasattr(self, key)\<close> and \<open>getattr(self, key)\<close>: the keys of the configured change
  dicts are the six index names and \<open>points\<close>, so \<open>hasattr\<close> is read as "is one of the
  six fields"; a key naming a method of the model is outside this model.
\<close>

definition getattr_index :: "NationalIndices \<Rightarrow> string \<Rightarrow> int option" where
  "getattr_index self key =
     (if key = ''economy'' then Some (economy self)
      else if key = ''society'' then Some (society self)
      else if key = ''culture'' then Some (culture self)
      else if key = ''integration'' then Some (integration self)
      else if key = ''environment'' then Some (environment self)
      else if key = ''science'' then Some (science self)
      else None)"

definition setattr_index :: "NationalIndices \<Rightarrow> string \<Rightarrow> int \<Rightarrow> NationalIndices" where
  "setattr_index self key v =
     (if key = ''economy'' then self\<lparr>economy := v\<rparr>
      else if key = ''society'' then self\<lparr>society := v\<rparr>
      else if key = ''culture'' then self\<lparr>culture := v\<rparr>
      else if key = ''integration'' then self\<lparr>integration := v\<rparr>
      else if key = ''environment'' then self\<lparr>environment := v\<rparr>
      else if key = ''science'' then self\<lparr>science := v\<rparr>
      else self)"

definition apply_change :: "int \<Rightarrow> string \<times> int \<Rightarrow> NationalIndices \<Rightarrow> NationalIndices" where
  "apply_change max_val kd self =
     (case getattr_index self (fst kd) of
        None \<Rightarrow> self
      | Some current \<Rightarrow>
          (let new_val = max 0 (min max_val (current + snd kd))
           in setattr_index self (fst kd) new_val))"

text \<open>\<open>apply_changes(self, changes, max_val=30)\<close>: the loop over \<open>changes.items()\<close>.\<close>

definition apply_changes :: "NationalIndices \<Rightarrow> (string \<times> int) list \<Rightarrow> int \<Rightarrow> NationalIndices" where
  "apply_changes self changes max_val = fold (apply_change max_val) changes self"

definition is_any_zero :: "NationalIndices \<Rightarrow> bool" where
  "is_any_zero self =
     (economy self \<le> 0 \<or> society self \<le> 0 \<or> culture self \<le> 0 \<or> integration self \<le> 0 \<or>
      environment self \<le> 0 \<or> science self \<le> 0)"

definition get_zero_index :: "NationalIndices \<Rightarrow> string option" where
  "get_zero_index self =
     (if economy self \<le> 0 then Some ''economy''
      else if society self \<le> 0 then Some ''society''
      else if culture self \<le> 0 then Some ''culture''
      else if integration self \<le> 0 then Some ''integration''
      else if environment self \<le> 0 then Some ''environment''
      else if science self \<le> 0 then Some ''science''
      else None)"

text \<open>\<open>NationalIndices(**game_config.STARTING_INDICES)\<close>; a missing key takes the default 10.\<close>

definition NationalIndices_of :: "(string \<times> int) list \<Rightarrow> NationalIndices" where
  "NationalIndices_of kw =
     (let field = (\<lambda>k. case map_of kw k of Some v \<Rightarrow> v | None \<Rightarrow> 10)
      in \<lparr>economy = field ''economy'', society = field ''society'', culture = field ''culture'',
          integration = field ''integration'', environment = field ''environment'',
          science = field ''science''\<rparr>)"

datatype project_outcome = pending | succeeded | failed

text \<open>
  \<open>ProjectStatus.status\<close> is one of the strings \<open>pending\<close>, \<open>success\<close>, \<open>failure\<close>, here
  \<^const>\<open>pending\<close>, \<^const>\<open>succeeded\<close>, \<^const>\<open>failed\<close>.
\<close>

record ProjectStatus =
  total_contributed :: int
  contributing_teams :: "Contribution list"
  min_total :: int
  min_teams :: int
  status_project :: project_outcome

text \<open>A \<open>datetime\<close> is a number of clock ticks; \<open>datetime.now()\<close> is a parameter \<open>now\<close>.\<close>

type_synonym datetime = nat

record GameState =
  current_turn :: int
  current_phase :: GamePhase
  phase_start_time :: "datetime option"
  phase_time_limit :: int
  is_paused :: bool
  paused_time_remaining :: "int option"
  national_indices :: NationalIndices
  current_event :: "TurnEvent option"
  project_status :: "ProjectStatus option"
  board :: "BoardCell list"

record Room =
  code :: string
  host_name :: string
  host_token :: string
  status :: RoomStatus
  teams :: "Team list"
  game_state :: "GameState option"
  created_at :: datetime

text \<open>Entries of the lists a \<open>TurnResult\<close> carries.\<close>

record ProjectContribution =
  team_id :: string
  amount :: int
  points :: rat

record CellResult =
  cell_id :: string
  team_scores :: "(string \<times> rat) list"

record TeamScore =
  team_id :: string
  turn_score :: int
  total_score :: int

record TurnResult =
  turn :: int
  project_success :: bool
  project_contributions :: "ProjectContribution list"
  cell_results :: "CellResult list"
  index_changes :: "(string \<times> int) list"
  new_indices :: NationalIndices
  team_scores :: "TeamScore list"

section \<open>game/service.py\<close>

text \<open>
  The service mutates the room it is given. Every operation returns its result (or the
  exception it raised) together with the room as the call leaves it, also when it raises.

  \<open>next((x for x in xs if p(x)), None)\<close> is \<^const>\<open>find\<close>; an assignment to a field of
  the object found changes the first such element of the list.
\<close>

fun update_first :: "('a \<Rightarrow> bool) \<Rightarrow> ('a \<Rightarrow> 'a) \<Rightarrow> 'a list \<Rightarrow> 'a list" where
  "update_first P f [] = []"
| "update_first P f (x # xs) = (if P x then f x # xs else x # update_first P f xs)"

text \<open>The body of the loops headed \<open># Reset teams\<close>.\<close>

definition reset_team :: "Team \<Rightarrow> Team" where
  "reset_team team =
     team\<lparr>resources := RESOURCES_PER_TURN, Team.placements := [], has_submitted := False\<rparr>"

definition clear_cell :: "BoardCell \<Rightarrow> BoardCell" where
  "clear_cell cell = cell\<lparr>BoardCell.placements := []\<rparr>"

text \<open>\<open>ProjectStatus(min_total=..., min_teams=...) if event else None\<close>.\<close>

definition new_project_status :: "TurnEvent option \<Rightarrow> ProjectStatus option" where
  "new_project_status ev =
     (case ev of
        None \<Rightarrow> None
      | Some e \<Rightarrow>
          Some \<lparr>ProjectStatus.total_contributed = 0, contributing_teams = [],
                ProjectStatus.min_total = TurnEvent.min_total e,
                ProjectStatus.min_teams = TurnEvent.min_teams e,
                status_project = pending\<rparr>)"

definition create_board :: "BoardCell list" where
  "create_board =
     map (\<lambda>(pos, cell_config).
            \<lparr>id_cell = create_cell_id pos, position = pos, type_cell = type_config cell_config,
             name_cell = name_config cell_config, indices = indices_config cell_config,
             BoardCell.placements = []\<rparr>)
       (filter (\<lambda>(pos, cell_config). pos \<notin> set PROJECT_CELLS) BOARD_CELLS)"

definition start_game :: "Room \<Rightarrow> datetime \<Rightarrow> (error + unit) \<times> Room" where
  "start_game room now =
     (let connected_count = length (filter is_connected (teams room))
      in if connected_count < 3
         then (Inl (ValueError ''Need at least 3 connected teams to start''), room)
         else if status room \<noteq> WAITING
         then (Inl (ValueError ''Game already started''), room)
         else
           (let first_event = get_event_by_turn 1;
                gs = \<lparr>current_turn = 1, current_phase = EVENT, phase_start_time = Some now,
                      phase_time_limit = PHASE_EVENT_DURATION, is_paused = False,
                      paused_time_remaining = None,
                      national_indices = NationalIndices_of STARTING_INDICES,
                      current_event = first_event,
                      project_status = new_project_status first_event,
                      board = create_board\<rparr>
            in (Inr (),
                room\<lparr>game_state := Some gs, status := PLAYING,
                     teams := map reset_team (teams room)\<rparr>)))"

text \<open>The body of the inner loop of \<open>_sync_placements_to_board\<close>, for one placement of a team.\<close>

definition sync_placement :: "string \<Rightarrow> Placement \<Rightarrow> GameState \<Rightarrow> GameState" where
  "sync_placement tid placement gs =
     (if Placement.cell_id placement = PROJECT_CELL_ID
      then (case project_status gs of
              None \<Rightarrow> gs
            | Some ps \<Rightarrow>
                gs\<lparr>project_status := Some
                  (ps\<lparr>ProjectStatus.total_contributed :=
                         ProjectStatus.total_contributed ps + Placement.amount placement,
                       contributing_teams := contributing_teams ps @
                         [\<lparr>Contribution.team_id = tid,
                           Contribution.amount = Placement.amount placement\<rparr>]\<rparr>)\<rparr>)
      else gs\<lparr>board :=
             update_first (\<lambda>c. id_cell c = Placement.cell_id placement)
               (\<lambda>c. c\<lparr>BoardCell.placements := BoardCell.placements c @
                         [\<lparr>CellPlacement.team_id = tid,
                           CellPlacement.amount = Placement.amount placement\<rparr>]\<rparr>)
               (board gs)\<rparr>)"

definition sync_team :: "Team \<Rightarrow> GameState \<Rightarrow> GameState" where
  "sync_team team gs = fold (sync_placement (id_team team)) (Team.placements team) gs"

definition sync_placements_to_board :: "Room \<Rightarrow> Room" where
  "sync_placements_to_board room =
     (case game_state room of
        None \<Rightarrow> room
      | Some gs \<Rightarrow>
          (let gs1 = gs\<lparr>board := map clear_cell (board gs)\<rparr>;
               gs2 = (case project_status gs1 of
                        None \<Rightarrow> gs1
                      | Some ps \<Rightarrow>
                          gs1\<lparr>project_status := Some
                            (ps\<lparr>ProjectStatus.total_contributed := 0,
                                 contributing_teams := []\<rparr>)\<rparr>);
               gs3 = fold sync_team (teams room) gs2
           in room\<lparr>game_state := Some gs3\<rparr>))"

definition place_resource :: "Room \<Rightarrow> string \<Rightarrow> string \<Rightarrow> int \<Rightarrow> (error + unit) \<times> Room" where
  "place_resource room tid cid amt =
     (case game_state room of
        None \<Rightarrow> (Inl (ValueError ''Game not started''), room)
      | Some gs \<Rightarrow>
          if current_phase gs \<noteq> ACTION
          then (Inl (ValueError ''Can only place during action phase''), room)
          else
            (case find (\<lambda>t. id_team t = tid) (teams room) of
               None \<Rightarrow> (Inl (ValueError ''Team not found''), room)
             | Some team \<Rightarrow>
                 if has_submitted team
                 then (Inl (ValueError ''Already submitted''), room)
                 else
                   (let current_placement =
                          find (\<lambda>p. Placement.cell_id p = cid) (Team.placements team);
                        current_amount =
                          (case current_placement of
                             Some p \<Rightarrow> Placement.amount p | None \<Rightarrow> 0);
                        change = amt - current_amount
                    in if change > resources team
                       then (Inl (ValueError ''Not enough resources''), room)
                       else if amt < 0
                       then (Inl (ValueError ''Amount cannot be negative''), room)
                       else
                         (let new_placements =
                                (case current_placement of
                                   Some p \<Rightarrow>
                                     if amt = 0 then remove1 p (Team.placements team)
                                     else update_first (\<lambda>p. Placement.cell_id p = cid)
                                            (\<lambda>p. p\<lparr>Placement.amount := amt\<rparr>)
                                            (Team.placements team)
                                 | None \<Rightarrow>
                                     if amt > 0
                                     then Team.placements team @
                                            [\<lparr>Placement.cell_id = cid, Placement.amount = amt\<rparr>]
                                     else Team.placements team);
                              room1 = room\<lparr>teams :=
                                update_first (\<lambda>t. id_team t = tid)
                                  (\<lambda>t. t\<lparr>resources := resources t - change,
                                          Team.placements := new_placements\<rparr>)
                                  (teams room)\<rparr>
                          in (Inr (), sync_placements_to_board room1)))))"

definition submit_turn :: "Room \<Rightarrow> string \<Rightarrow> (error + unit) \<times> Room" where
  "submit_turn room tid =
     (case find (\<lambda>t. id_team t = tid) (teams room) of
        None \<Rightarrow> (Inl (ValueError ''Team not found''), room)
      | Some team \<Rightarrow>
          (Inr (),
           room\<lparr>teams := update_first (\<lambda>t. id_team t = tid)
                           (\<lambda>t. t\<lparr>has_submitted := True\<rparr>) (teams room)\<rparr>))"

definition all_teams_submitted :: "Room \<Rightarrow> bool" where
  "all_teams_submitted room = list_all has_submitted (filter is_connected (teams room))"

text \<open>\<open>for team_id, points in scores.items(): team_turn_scores[team_id] += points\<close>.\<close>

fun add_points :: "(string \<times> rat) list \<Rightarrow> scores \<Rightarrow> error + scores" where
  "add_points [] tts = Inr tts"
| "add_points ((k, pts) # rest) tts =
     (case map_of tts k of
        None \<Rightarrow> Inl (KeyError k)
      | Some v \<Rightarrow> add_points rest (AList.update k (v + pts) tts))"

text \<open>The loop \<open># Score each cell\<close> of \<open>_process_turn\<close>.\<close>

fun score_cells :: "BoardCell list \<Rightarrow> CellResult list \<Rightarrow> scores \<Rightarrow> error + CellResult list \<times> scores" where
  "score_cells [] crs tts = Inr (crs, tts)"
| "score_cells (cell # cells) crs tts =
     (case calculate_cell_scores cell of
        Inl e \<Rightarrow> Inl e
      | Inr scs \<Rightarrow>
          (case add_points scs tts of
             Inl e \<Rightarrow> Inl e
           | Inr tts' \<Rightarrow>
               score_cells cells
                 (crs @ [\<lparr>CellResult.cell_id = id_cell cell, CellResult.team_scores = scs\<rparr>])
                 tts'))"

text \<open>\<open>int(x)\<close> of a float: truncation towards zero.\<close>

definition py_int :: "rat \<Rightarrow> int" where
  "py_int x = (if x \<ge> 0 then \<lfloor>x\<rfloor> else \<lceil>x\<rceil>)"

text \<open>
  The body of the loop \<open># Update team total scores\<close>: the turn score of one team, from the
  accumulated \<open>team_turn_scores\<close> and the project's flat bonus.
\<close>

definition team_turn_score :: "GameState \<Rightarrow> bool \<Rightarrow> scores \<Rightarrow> Team \<Rightarrow> int" where
  "team_turn_score gs psuccess tts team =
     (let turn_score = py_int (case map_of tts (id_team team) of Some v \<Rightarrow> v | None \<Rightarrow> 0)
      in case current_event gs of
           None \<Rightarrow> turn_score
         | Some ev \<Rightarrow>
             if psuccess
             then
               (let bonus_points =
                      (case map_of (success_reward ev) ''points'' of Some b \<Rightarrow> b | None \<Rightarrow> 0)
                in case project_status gs of
                     None \<Rightarrow> turn_score
                   | Some ps \<Rightarrow>
                       if contributing_teams ps \<noteq> []
                       then
                         (let contributed =
                                list_ex (\<lambda>c. Contribution.team_id c = id_team team \<and>
                                              Contribution.amount c > 0)
                                  (contributing_teams ps)
                          in if contributed
                             then turn_score + bonus_points div
                                    int (length (filter (\<lambda>c. Contribution.amount c > 0)
                                                   (contributing_teams ps)))
                             else turn_score)
                       else turn_score)
             else turn_score)"

text \<open>
  The end of \<open>_process_turn\<close>, which both branches of \<open>if gs.project_status and
  gs.current_event\<close> reach: team totals and the \<open>TurnResult\<close>.
\<close>

definition finish_turn ::
  "Room \<Rightarrow> GameState \<Rightarrow> bool \<Rightarrow> ProjectContribution list \<Rightarrow> CellResult list \<Rightarrow>
   (string \<times> int) list \<Rightarrow> scores \<Rightarrow> (error + TurnResult) \<times> Room" where
  "finish_turn room gs psuccess pcs crs ichanges tts =
     (let ts = team_turn_score gs psuccess tts;
          res = \<lparr>TurnResult.turn = current_turn gs, project_success = psuccess,
                 project_contributions = pcs, cell_results = crs, index_changes = ichanges,
                 new_indices = national_indices gs,
                 TurnResult.team_scores =
                   map (\<lambda>t. \<lparr>TeamScore.team_id = id_team t, turn_score = ts t,
                              total_score = score t + ts t\<rparr>) (teams room)\<rparr>
      in (Inr res,
          room\<lparr>game_state := Some gs,
               teams := map (\<lambda>t. t\<lparr>score := score t + ts t\<rparr>) (teams room)\<rparr>))"

definition process_turn :: "Room \<Rightarrow> (error + TurnResult) \<times> Room" where
  "process_turn room =
     (case game_state room of
        None \<Rightarrow> (Inl (ValueError ''Game not started''), room)
      | Some gs \<Rightarrow>
          (case score_cells (board gs) []
                  (fold (\<lambda>t. AList.update (id_team t) 0) (teams room) []) of
             Inl e \<Rightarrow> (Inl e, room)
           | Inr (crs, tts) \<Rightarrow>
               (case project_status gs of
                  None \<Rightarrow> finish_turn room gs False [] crs [] tts
                | Some ps \<Rightarrow>
                    (case current_event gs of
                       None \<Rightarrow> finish_turn room gs False [] crs [] tts
                     | Some ev \<Rightarrow>
                         (let project_result =
                                calculate_project_result (contributing_teams ps)
                                  (ProjectStatus.min_total ps) (ProjectStatus.min_teams ps);
                              psuccess = success project_result;
                              gs1 = gs\<lparr>project_status := Some
                                      (ps\<lparr>status_project :=
                                            (if psuccess then succeeded else failed)\<rparr>)\<rparr>
                          in case add_points (ProjectResult.team_scores project_result) tts of
                               Inl e \<Rightarrow> (Inl e, room\<lparr>game_state := Some gs1\<rparr>)
                             | Inr tts' \<Rightarrow>
                                 (let pcs =
                                        map (\<lambda>c.
                                          \<lparr>ProjectContribution.team_id = Contribution.team_id c,
                                           ProjectContribution.amount = Contribution.amount c,
                                           points =
                                             (case map_of (ProjectResult.team_scores project_result)
                                                     (Contribution.team_id c) of
                                                Some v \<Rightarrow> v | None \<Rightarrow> 0)\<rparr>)
                                          (contributing_teams ps);
                                      ichanges =
                                        (if psuccess
                                         then AList.delete ''points'' (success_reward ev)
                                         else failure_penalty ev);
                                      gs2 = gs1\<lparr>national_indices :=
                                              apply_changes (national_indices gs1) ichanges
                                                INDEX_MAXIMUM\<rparr>
                                  in finish_turn room gs2 psuccess pcs crs ichanges tts'))))))"

text \<open>
  \<open>for key, cost in MAINTENANCE_COST.items(): apply_changes({key: -cost})\<close>, with the
  default \<open>max_val = 30\<close>.
\<close>

definition apply_maintenance :: "NationalIndices \<Rightarrow> NationalIndices" where
  "apply_maintenance idx =
     fold (\<lambda>kc s. apply_changes s [(fst kc, - snd kc)] 30) MAINTENANCE_COST idx"

text \<open>The last two assignments of \<open>advance_phase\<close>.\<close>

definition stamp :: "datetime \<Rightarrow> Room \<Rightarrow> Room" where
  "stamp now room =
     room\<lparr>game_state :=
       map_option (\<lambda>gs. gs\<lparr>phase_start_time := Some now, is_paused := False\<rparr>)
         (game_state room)\<rparr>"

text \<open>
  In the \<open>ACTION\<close> branch \<open>gs.current_phase\<close> is \<open>RESOLUTION\<close> when the function returns:
  \<open>_process_turn\<close> does not assign it.
\<close>

definition advance_phase ::
  "Room \<Rightarrow> datetime \<Rightarrow> (error + GamePhase \<times> TurnResult option) \<times> Room" where
  "advance_phase room now =
     (case game_state room of
        None \<Rightarrow> (Inl (ValueError ''Game not started''), room)
      | Some gs \<Rightarrow>
          (case current_phase gs of
             EVENT \<Rightarrow>
               (Inr (ACTION, None),
                stamp now (room\<lparr>game_state := Some
                  (gs\<lparr>current_phase := ACTION,
                       phase_time_limit := PHASE_ACTION_DURATION\<rparr>)\<rparr>))
           | ACTION \<Rightarrow>
               (let room1 = room\<lparr>game_state := Some
                              (gs\<lparr>current_phase := RESOLUTION,
                                   phase_time_limit := PHASE_RESOLUTION_DURATION\<rparr>),
                            teams := map (\<lambda>t. t\<lparr>has_submitted := True\<rparr>) (teams room)\<rparr>
                in case process_turn room1 of
                     (Inl e, room2) \<Rightarrow> (Inl e, room2)
                   | (Inr res, room2) \<Rightarrow> (Inr (RESOLUTION, Some res), stamp now room2))
           | RESOLUTION \<Rightarrow>
               (Inr (RESULT, None),
                stamp now (room\<lparr>game_state := Some
                  (gs\<lparr>current_phase := RESULT,
                       phase_time_limit := PHASE_RESULT_DURATION\<rparr>)\<rparr>))
           | RESULT \<Rightarrow>
               (let gs1 = gs\<lparr>national_indices := apply_maintenance (national_indices gs)\<rparr>
                in if is_any_zero (national_indices gs1)
                   then (Inr (RESULT, None), room\<lparr>game_state := Some gs1, status := FINISHED\<rparr>)
                   else if current_turn gs1 \<ge> MAX_TURNS
                   then (Inr (RESULT, None), room\<lparr>game_state := Some gs1, status := FINISHED\<rparr>)
                   else
                     (let next_turn = current_turn gs1 + 1;
                          next_event = get_event_by_turn next_turn;
                          gs2 = gs1\<lparr>current_turn := next_turn, current_phase := EVENT,
                                    phase_time_limit := PHASE_EVENT_DURATION,
                                    current_event := next_event,
                                    project_status := new_project_status next_event,
                                    board := map clear_cell (board gs1)\<rparr>
                      in (Inr (EVENT, None),
                          stamp now (room\<lparr>game_state := Some gs2,
                                          teams := map reset_team (teams room)\<rparr>))))))"

definition pause_game :: "Room \<Rightarrow> Room" where
  "pause_game room =
     (case game_state room of
        None \<Rightarrow> room
      | Some gs \<Rightarrow> room\<lparr>game_state := Some (gs\<lparr>is_paused := True\<rparr>), status := PAUSED\<rparr>)"

definition resume_game :: "Room \<Rightarrow> datetime \<Rightarrow> Room" where
  "resume_game room now =
     (case game_state room of
        None \<Rightarrow> room
      | Some gs \<Rightarrow>
          room\<lparr>game_state := Some (gs\<lparr>is_paused := False, phase_start_time := Some now\<rparr>),
               status := PLAYING\<rparr>)"

section \<open>websocket/manager.py\<close>

text \<open>
  A \<open>WebSocket\<close> object is known by its identity, a number. Accepting a connection and
  sending to it are input and output and leave the registry as it is; they are not modelled.
\<close>

type_synonym WebSocket = nat

record ConnectionInfo =
  authenticated :: bool
  role :: "ClientRole option"
  team_id :: "string option"

record ConnectionManager =
  connections :: "(string \<times> (WebSocket \<times> ConnectionInfo) list) list"
  team_connections :: "(string \<times> WebSocket) list"
  host_connection :: "WebSocket option"

text \<open>\<open>ConnectionInfo()\<close> and \<open>ConnectionManager()\<close>.\<close>

definition ConnectionInfo_init :: ConnectionInfo where
  "ConnectionInfo_init = \<lparr>authenticated = False, role = None, ConnectionInfo.team_id = None\<rparr>"

definition ConnectionManager_init :: ConnectionManager where
  "ConnectionManager_init = \<lparr>connections = [], team_connections = [], host_connection = None\<rparr>"

text \<open>The truth value of a \<open>str | None\<close>: false for \<open>None\<close> and for the empty string.\<close>

definition truthy :: "string option \<Rightarrow> bool" where
  "truthy x = (case x of None \<Rightarrow> False | Some s \<Rightarrow> s \<noteq> [])"

definition connect :: "ConnectionManager \<Rightarrow> WebSocket \<Rightarrow> string \<Rightarrow> ConnectionManager" where
  "connect self ws room_code =
     (let conns = (case map_of (connections self) room_code of
                     None \<Rightarrow> AList.update room_code [] (connections self)
                   | Some d \<Rightarrow> connections self);
          room_conns = (case map_of conns room_code of Some d \<Rightarrow> d | None \<Rightarrow> [])
      in self\<lparr>connections :=
           AList.update room_code (AList.update ws ConnectionInfo_init room_conns) conns\<rparr>)"

definition disconnect ::
  "ConnectionManager \<Rightarrow> WebSocket \<Rightarrow> string \<Rightarrow> ConnectionInfo option \<times> ConnectionManager" where
  "disconnect self ws room_code =
     (case map_of (connections self) room_code of
        None \<Rightarrow> (None, self)
      | Some room_conns \<Rightarrow>
          (let info = map_of room_conns ws;
               room_conns1 = AList.delete ws room_conns;
               self1 = self\<lparr>connections := AList.update room_code room_conns1 (connections self)\<rparr>;
               self2 =
                 (case info of
                    None \<Rightarrow> self1
                  | Some i \<Rightarrow>
                      (case ConnectionInfo.team_id i of
                         None \<Rightarrow> self1
                       | Some t \<Rightarrow>
                           if t \<noteq> [] \<and> map_of (team_connections self1) t = Some ws
                           then self1\<lparr>team_connections :=
                                  AList.delete t (team_connections self1)\<rparr>
                           else self1));
               self3 =
                 (case info of
                    None \<Rightarrow> self2
                  | Some i \<Rightarrow>
                      if role i = Some HOST \<and> host_connection self2 = Some ws
                      then self2\<lparr>host_connection := None\<rparr>
                      else self2);
               self4 =
                 (if room_conns1 = []
                  then self3\<lparr>connections := AList.delete room_code (connections self3)\<rparr>
                  else self3)
           in (info, self4)))"

definition authenticate ::
  "ConnectionManager \<Rightarrow> WebSocket \<Rightarrow> string \<Rightarrow> ClientRole \<Rightarrow> string option \<Rightarrow>
   (bool \<times> string) \<times> ConnectionManager" where
  "authenticate self ws room_code rl tid =
     (case map_of (connections self) room_code of
        None \<Rightarrow> ((False, ''Room not found''), self)
      | Some room_conns \<Rightarrow>
          (case map_of room_conns ws of
             None \<Rightarrow> ((False, ''Connection not found''), self)
           | Some info \<Rightarrow>
               (let mark = (\<lambda>m. m\<lparr>connections :=
                              AList.update room_code
                                (AList.update ws
                                   (info\<lparr>authenticated := True, role := Some rl,
                                          ConnectionInfo.team_id := tid\<rparr>) room_conns)
                                (connections m)\<rparr>)
                in if rl = HOST
                   then (if host_connection self \<noteq> None
                         then ((False, ''Host already connected''), self)
                         else ((True, []), mark (self\<lparr>host_connection := Some ws\<rparr>)))
                   else if rl = PLAYER \<and> truthy tid
                   then (case tid of
                           None \<Rightarrow> ((True, []), mark self)
                         | Some t \<Rightarrow>
                             if map_of (team_connections self) t \<noteq> None
                             then ((False, ''Team already connected''), self)
                             else ((True, []),
                                   mark (self\<lparr>team_connections :=
                                           AList.update t ws (team_connections self)\<rparr>)))
                   else ((True, []), mark self))))"

definition get_connection_info ::
  "ConnectionManager \<Rightarrow> WebSocket \<Rightarrow> string \<Rightarrow> ConnectionInfo option" where
  "get_connection_info self ws room_code =
     (case map_of (connections self) room_code of
        None \<Rightarrow> None
      | Some room_conns \<Rightarrow> map_of room_conns ws)"

definition is_team_connected :: "ConnectionManager \<Rightarrow> string \<Rightarrow> bool" where
  "is_team_connected self tid = (map_of (team_connections self) tid \<noteq> None)"

section \<open>websocket/state\_filter.py\<close>

text \<open>
  Messages are JSON-like Python values; a message is a dict. Where the filter would raise
  on a value of the wrong type (\<open>copy\<close> or \<open>pop\<close> of something that is not a dict, a loop
  over something that cannot be iterated), the model returns the exception.
\<close>

datatype json =
  JNull | JBool bool | JInt int | JStr string | JList "json list" | JObj "(string \<times> json) list"

type_synonym message = "(string \<times> json) list"

text \<open>\<open>team.get('id') != conn_info.team_id\<close> compares a JSON value (or a missing key) with a
  \<open>str | None\<close>.\<close>

definition py_eq :: "json option \<Rightarrow> string option \<Rightarrow> bool" where
  "py_eq v t =
     (case v of
        None \<Rightarrow> t = None
      | Some JNull \<Rightarrow> t = None
      | Some (JStr x) \<Rightarrow> t = Some x
      | Some other \<Rightarrow> False)"

text \<open>The elements a \<open>for\<close> loop visits: of a list its items, of a dict its keys, of a string
  its characters.\<close>

definition py_iter :: "json \<Rightarrow> error + json list" where
  "py_iter v =
     (case v of
        JList xs \<Rightarrow> Inr xs
      | JObj d \<Rightarrow> Inr (map (\<lambda>kv. JStr (fst kv)) d)
      | JStr x \<Rightarrow> Inr (map (\<lambda>c. JStr [c]) x)
      | other \<Rightarrow> Inl (TypeError ''object is not iterable''))"

text \<open>The body of the loop over the teams.\<close>

definition filter_team :: "ConnectionInfo \<Rightarrow> json \<Rightarrow> error + json" where
  "filter_team conn_info team =
     (case team of
        JObj d \<Rightarrow>
          (let filtered_team = AList.delete ''session_token'' d;
               hidden = AList.update ''resources'' JNull
                          (AList.update ''placements'' (JList []) filtered_team)
           in if role conn_info = Some SPECTATOR then Inr (JObj hidden)
              else if role conn_info = Some PLAYER
              then (if \<not> py_eq (map_of d ''id'') (ConnectionInfo.team_id conn_info)
                    then Inr (JObj hidden) else Inr (JObj filtered_team))
              else Inr (JObj filtered_team))
      | JList xs \<Rightarrow> Inl (TypeError ''pop expected at most 1 argument, got 2'')
      | other \<Rightarrow> Inl (AttributeError ''copy''))"

fun filter_teams :: "ConnectionInfo \<Rightarrow> json list \<Rightarrow> error + json list" where
  "filter_teams conn_info [] = Inr []"
| "filter_teams conn_info (team # rest) =
     (case filter_team conn_info team of
        Inl e \<Rightarrow> Inl e
      | Inr ft \<Rightarrow>
          (case filter_teams conn_info rest of
             Inl e \<Rightarrow> Inl e
           | Inr fts \<Rightarrow> Inr (ft # fts)))"

definition filter_game_state :: "message \<Rightarrow> ConnectionInfo \<Rightarrow> error + message" where
  "filter_game_state msg conn_info =
     (if map_of msg ''type'' \<noteq> Some (JStr ''GAME_STATE'') then Inr msg
      else if role conn_info = Some HOST then Inr msg
      else
        (case (case map_of msg ''data'' of None \<Rightarrow> JObj [] | Some v \<Rightarrow> v) of
           JObj filtered_data \<Rightarrow>
             (case map_of filtered_data ''teams'' of
                None \<Rightarrow>
                  Inr [(''type'', JStr ''GAME_STATE''),
                       (''data'', JObj (AList.delete ''host_token'' filtered_data))]
              | Some ts \<Rightarrow>
                  (case py_iter ts of
                     Inl e \<Rightarrow> Inl e
                   | Inr tms \<Rightarrow>
                       (case filter_teams conn_info tms of
                          Inl e \<Rightarrow> Inl e
                        | Inr filtered_teams \<Rightarrow>
                            Inr [(''type'', JStr ''GAME_STATE''),
                                 (''data'', JObj (AList.delete ''host_token''
                                    (AList.update ''teams'' (JList filtered_teams)
                                       filtered_data)))])))
         | JList xs \<Rightarrow> Inl (TypeError ''list'')
         | other \<Rightarrow> Inl (AttributeError ''copy'')))"

section \<open>websocket/handlers.py: the state message\<close>

text \<open>
  The handlers send \<open>{'type': 'GAME_STATE', 'data': room.model_dump(mode='json')}\<close> through
  the filter. Pydantic dumps a model as a dict of its fields in the order of their
  declaration, an enum member as its value, a tuple as a list, \<open>None\<close> as \<open>null\<close> and a
  \<open>datetime\<close> as a string (here the decimal tick count).
\<close>

definition RoomStatus_value :: "RoomStatus \<Rightarrow> string" where
  "RoomStatus_value x =
     (case x of WAITING \<Rightarrow> ''waiting'' | PLAYING \<Rightarrow> ''playing'' | PAUSED \<Rightarrow> ''paused''
      | FINISHED \<Rightarrow> ''finished'')"

definition GamePhase_value :: "GamePhase \<Rightarrow> string" where
  "GamePhase_value x =
     (case x of EVENT \<Rightarrow> ''event'' | ACTION \<Rightarrow> ''action'' | RESOLUTION \<Rightarrow> ''resolution''
      | RESULT \<Rightarrow> ''result'')"

definition CellType_value :: "CellType \<Rightarrow> string" where
  "CellType_value x =
     (case x of COMPETITIVE \<Rightarrow> ''competitive'' | SYNERGY \<Rightarrow> ''synergy'' | SHARED \<Rightarrow> ''shared''
      | COOPERATION \<Rightarrow> ''cooperation'' | PROJECT \<Rightarrow> ''project'')"

definition RegionId_value :: "RegionId \<Rightarrow> string" where
  "RegionId_value x =
     (case x of THU_DO \<Rightarrow> ''thu-do'' | DUYEN_HAI \<Rightarrow> ''duyen-hai'' | TAY_NGUYEN \<Rightarrow> ''tay-nguyen''
      | DONG_BANG \<Rightarrow> ''dong-bang'' | MIEN_DONG \<Rightarrow> ''mien-dong'')"

definition project_outcome_value :: "project_outcome \<Rightarrow> string" where
  "project_outcome_value x =
     (case x of pending \<Rightarrow> ''pending'' | succeeded \<Rightarrow> ''success'' | failed \<Rightarrow> ''failure'')"

definition optional_dump :: "('a \<Rightarrow> json) \<Rightarrow> 'a option \<Rightarrow> json" where
  "optional_dump f x = (case x of None \<Rightarrow> JNull | Some v \<Rightarrow> f v)"

definition datetime_dump :: "datetime \<Rightarrow> json" where
  "datetime_dump t = JStr (str_nat t)"

definition dict_dump :: "(string \<times> int) list \<Rightarrow> json" where
  "dict_dump d = JObj (map (\<lambda>kv. (fst kv, JInt (snd kv))) d)"

definition Region_dump :: "Region \<Rightarrow> json" where
  "Region_dump r =
     JObj [(''id'', JStr (RegionId_value (id_region r))), (''name'', JStr (name_region r)),
           (''description'', JStr (description r))]"

definition Placement_dump :: "Placement \<Rightarrow> json" where
  "Placement_dump p =
     JObj [(''cell_id'', JStr (Placement.cell_id p)), (''amount'', JInt (Placement.amount p))]"

definition Team_dump :: "Team \<Rightarrow> json" where
  "Team_dump t =
     JObj [(''id'', JStr (id_team t)), (''index'', JInt (index_team t)),
           (''name'', JStr (name_team t)), (''region'', Region_dump (region t)),
           (''session_token'', JStr (session_token t)), (''score'', JInt (score t)),
           (''resources'', JInt (resources t)),
           (''placements'', JList (map Placement_dump (Team.placements t))),
           (''has_submitted'', JBool (has_submitted t)),
           (''is_connected'', JBool (is_connected t))]"

definition NationalIndices_dump :: "NationalIndices \<Rightarrow> json" where
  "NationalIndices_dump n =
     JObj [(''economy'', JInt (economy n)), (''society'', JInt (society n)),
           (''culture'', JInt (culture n)), (''integration'', JInt (integration n)),
           (''environment'', JInt (environment n)), (''science'', JInt (science n))]"

definition TurnEvent_dump :: "TurnEvent \<Rightarrow> json" where
  "TurnEvent_dump e =
     JObj [(''turn'', JInt (TurnEvent.turn e)), (''year'', JInt (year e)),
           (''name'', JStr (name_event e)), (''project'', JStr (project e)),
           (''min_total'', JInt (TurnEvent.min_total e)),
           (''min_teams'', JInt (TurnEvent.min_teams e)),
           (''success_reward'', dict_dump (success_reward e)),
           (''failure_penalty'', dict_dump (failure_penalty e))]"

definition Contribution_dump :: "Contribution \<Rightarrow> json" where
  "Contribution_dump c =
     JObj [(''team_id'', JStr (Contribution.team_id c)),
           (''amount'', JInt (Contribution.amount c))]"

definition ProjectStatus_dump :: "ProjectStatus \<Rightarrow> json" where
  "ProjectStatus_dump p =
     JObj [(''total_contributed'', JInt (ProjectStatus.total_contributed p)),
           (''contributing_teams'', JList (map Contribution_dump (contributing_teams p))),
           (''min_total'', JInt (ProjectStatus.min_total p)),
           (''min_teams'', JInt (ProjectStatus.min_teams p)),
           (''status'', JStr (project_outcome_value (status_project p)))]"

definition CellPlacement_dump :: "CellPlacement \<Rightarrow> json" where
  "CellPlacement_dump c =
     JObj [(''team_id'', JStr (CellPlacement.team_id c)),
           (''amount'', JInt (CellPlacement.amount c))]"

definition BoardCell_dump :: "BoardCell \<Rightarrow> json" where
  "BoardCell_dump c =
     JObj [(''id'', JStr (id_cell c)),
           (''position'', JList [JInt (fst (position c)), JInt (snd (position c))]),
           (''type'', JStr (CellType_value (type_cell c))), (''name'', JStr (name_cell c)),
           (''indices'', JList (map JStr (indices c))),
           (''placements'', JList (map CellPlacement_dump (BoardCell.placements c)))]"

definition GameState_dump :: "GameState \<Rightarrow> json" where
  "GameState_dump g =
     JObj [(''current_turn'', JInt (current_turn g)),
           (''current_phase'', JStr (GamePhase_value (current_phase g))),
           (''phase_start_time'', optional_dump datetime_dump (phase_start_time g)),
           (''phase_time_limit'', JInt (phase_time_limit g)),
           (''is_paused'', JBool (is_paused g)),
           (''paused_time_remaining'', optional_dump JInt (paused_time_remaining g)),
           (''national_indices'', NationalIndices_dump (national_indices g)),
           (''current_event'', optional_dump TurnEvent_dump (current_event g)),
           (''project_status'', optional_dump ProjectStatus_dump (project_status g)),
           (''board'', JList (map BoardCell_dump (board g)))]"

definition model_dump :: "Room \<Rightarrow> message" where
  "model_dump room =
     [(''code'', JStr (code room)), (''host_name'', JStr (host_name room)),
      (''host_token'', JStr (host_token room)),
      (''status'', JStr (RoomStatus_value (status room))),
      (''teams'', JList (map Team_dump (teams room))),
      (''game_state'', optional_dump GameState_dump (game_state room)),
      (''created_at'', datetime_dump (created_at room))]"

definition state_msg :: "Room \<Rightarrow> message" where
  "state_msg room = [(''type'', JStr ''GAME_STATE''), (''data'', JObj (model_dump room))]"

section \<open>Definitions that follow the specification's wording\<close>

text \<open>
  The specification speaks of the number of distinct teams with a positive contribution;
  the code counts list entries with a positive amount (\<open>num_teams\<close> above).
\<close>

definition distinct_contributing_teams :: "Contribution list \<Rightarrow> nat" where
  "distinct_contributing_teams cs =
     length (remdups (map Contribution.team_id (filter (\<lambda>c. Contribution.amount c > 0) cs)))"

text \<open>
  The specification's bound on the national indices: each of the six lies in
  \<open>[0, INDEX_MAXIMUM]\<close>; for a room, the bound on the indices of its game state.
\<close>

definition within_bounds :: "NationalIndices \<Rightarrow> bool" where
  "within_bounds idx =
     (0 \<le> economy idx \<and> economy idx \<le> INDEX_MAXIMUM \<and>
      0 \<le> society idx \<and> society idx \<le> INDEX_MAXIMUM \<and>
      0 \<le> culture idx \<and> culture idx \<le> INDEX_MAXIMUM \<and>
      0 \<le> integration idx \<and> integration idx \<le> INDEX_MAXIMUM \<and>
      0 \<le> environment idx \<and> environment idx \<le> INDEX_MAXIMUM \<and>
      0 \<le> science idx \<and> science idx \<le> INDEX_MAXIMUM)"

definition indices_within_bounds :: "Room \<Rightarrow> bool" where
  "indices_within_bounds room =
     (case game_state room of None \<Rightarrow> True | Some gs \<Rightarrow> within_bounds (national_indices gs))"

text \<open>
  \<open>currentPlacementForCell\<close>, the sum of a team's placement amounts, and the invariant of
  the data model: amounts are positive, the resource counter is not negative, and placed
  plus remaining resources are the resources granted this turn.
\<close>

definition placed_amount :: "Team \<Rightarrow> string \<Rightarrow> int" where
  "placed_amount team cid =
     (case find (\<lambda>p. Placement.cell_id p = cid) (Team.placements team) of
        Some p \<Rightarrow> Placement.amount p | None \<Rightarrow> 0)"

definition placed_total :: "Team \<Rightarrow> int" where
  "placed_total team = sum_list (map Placement.amount (Team.placements team))"

definition team_budget_ok :: "Team \<Rightarrow> bool" where
  "team_budget_ok team =
     (0 \<le> resources team \<and> list_all (\<lambda>p. 0 < Placement.amount p) (Team.placements team) \<and>
      placed_total team + resources team = RESOURCES_PER_TURN)"

text \<open>The phase cycle of the specification, and the condition under which the \<open>RESULT\<close>
  branch of \<open>advance_phase\<close> ends the game instead of opening the next turn.\<close>

fun next_phase :: "GamePhase \<Rightarrow> GamePhase" where
  "next_phase EVENT = ACTION"
| "next_phase ACTION = RESOLUTION"
| "next_phase RESOLUTION = RESULT"
| "next_phase RESULT = EVENT"

definition ends_game :: "GameState \<Rightarrow> bool" where
  "ends_game gs =
     (current_phase gs = RESULT \<and>
      (is_any_zero (apply_maintenance (national_indices gs)) \<or> current_turn gs \<ge> MAX_TURNS))"

text \<open>
  A message carries a credential when its data has the key \<open>host_token\<close> or one of its
  teams has the key \<open>session_token\<close>; \<open>set_credentials\<close> replaces the host's credential
  and every team's session credential of a room.
\<close>

definition team_has_token :: "json \<Rightarrow> bool" where
  "team_has_token t =
     (case t of JObj d \<Rightarrow> map_of d ''session_token'' \<noteq> None | other \<Rightarrow> False)"

definition carries_credentials :: "message \<Rightarrow> bool" where
  "carries_credentials msg =
     (case map_of msg ''data'' of
        Some (JObj d) \<Rightarrow>
          map_of d ''host_token'' \<noteq> None \<or>
          (case map_of d ''teams'' of
             Some (JList ts) \<Rightarrow> list_ex team_has_token ts
           | other \<Rightarrow> False)
      | other \<Rightarrow> False)"

definition set_credentials :: "string \<Rightarrow> string list \<Rightarrow> Room \<Rightarrow> Room" where
  "set_credentials h toks room =
     room\<lparr>host_token := h,
          teams := map (\<lambda>ts. (fst ts)\<lparr>session_token := snd ts\<rparr>) (zip (teams room) toks)\<rparr>"




section \<open>Concrete inputs\<close>

definition contributions_dup :: "Contribution list" where
  "contributions_dup =
     [\<lparr>Contribution.team_id = ''t1'', Contribution.amount = 10\<rparr>,
      \<lparr>Contribution.team_id = ''t1'', Contribution.amount = 10\<rparr>]"


definition contributions_three :: "Contribution list" where
  "contributions_three =
     [\<lparr>Contribution.team_id = ''t1'', Contribution.amount = 7\<rparr>,
      \<lparr>Contribution.team_id = ''t2'', Contribution.amount = 7\<rparr>,
      \<lparr>Contribution.team_id = ''t3'', Contribution.amount = 6\<rparr>]"

definition cell_tie :: BoardCell where
  "cell_tie =
     \<lparr>id_cell = ''cell-0-3'', position = (0, 3), type_cell = COMPETITIVE,
      name_cell = ''Khu CN Viet Tri'', indices = [''economy'', ''environment''],
      BoardCell.placements =
        [\<lparr>CellPlacement.team_id = ''a'', CellPlacement.amount = 5\<rparr>,
         \<lparr>CellPlacement.team_id = ''b'', CellPlacement.amount = 3\<rparr>,
         \<lparr>CellPlacement.team_id = ''c'', CellPlacement.amount = 5\<rparr>,
         \<lparr>CellPlacement.team_id = ''d'', CellPlacement.amount = 0\<rparr>]\<rparr>"

definition changes_extreme :: "(string \<times> int) list" where
  "changes_extreme = [(''economy'', - 100), (''science'', 100), (''points'', 7)]"

definition team_of :: "string \<Rightarrow> int \<Rightarrow> bool \<Rightarrow> Team" where
  "team_of tid i c =
     \<lparr>id_team = tid, index_team = i, name_team = ''Doi '' @ str_int (i + 1),
      region = \<lparr>id_region = THU_DO, name_region = ''Thu do'', description = ''''\<rparr>,
      session_token = ''token-'' @ tid, score = 0, resources = 14, Team.placements = [],
      has_submitted = False, is_connected = c\<rparr>"

definition room_waiting :: Room where
  "room_waiting =
     \<lparr>code = ''123456'', host_name = ''Host'', host_token = ''host-token'', status = WAITING,
      teams = [team_of ''t1'' 0 True, team_of ''t2'' 1 True, team_of ''t3'' 2 True,
               team_of ''t4'' 3 False, team_of ''t5'' 4 False],
      game_state = None, created_at = 0\<rparr>"

definition room_event :: Room where
  "room_event = snd (start_game room_waiting 1)"

definition room_action :: Room where
  "room_action = snd (advance_phase room_event 2)"

text \<open>Rooms reached from \<^const>\<open>room_event\<close> by calls of the service.\<close>

primrec advance_times :: "nat \<Rightarrow> datetime \<Rightarrow> Room \<Rightarrow> Room" where
  "advance_times 0 now room = room"
| "advance_times (Suc n) now room = advance_times n (now + 1) (snd (advance_phase room now))"

definition room_result3 :: Room where
  "room_result3 = advance_times 11 2 room_event"

definition room_paused :: Room where
  "room_paused = pause_game room_result3"

definition place :: "string \<Rightarrow> string \<Rightarrow> int \<Rightarrow> Room \<Rightarrow> Room" where
  "place tid cid amt room = snd (place_resource room tid cid amt)"

definition room_placed :: Room where
  "room_placed =
     (place ''t3'' PROJECT_CELL_ID 7 (place ''t3'' ''cell-0-2'' 5
     (place ''t2'' PROJECT_CELL_ID 7 (place ''t2'' ''cell-0-1'' 5
     (place ''t1'' PROJECT_CELL_ID 7 (place ''t1'' ''cell-0-0'' 5 room_action))))))"

text \<open>A registry with one connection in each of two sessions.\<close>

definition manager_two_rooms :: ConnectionManager where
  "manager_two_rooms = connect (connect ConnectionManager_init 1 ''AAAAAA'') 2 ''BBBBBB''"

definition manager_spectator_in_a :: ConnectionManager where
  "manager_spectator_in_a = snd (authenticate manager_two_rooms 1 ''AAAAAA'' SPECTATOR None)"

text \<open>The \<open>ConnectionInfo\<close> of an authenticated host and of the player of team \<open>t1\<close>.\<close>

definition host_info :: ConnectionInfo where
  "host_info = \<lparr>authenticated = True, role = Some HOST, ConnectionInfo.team_id = None\<rparr>"

definition player_info :: ConnectionInfo where
  "player_info = \<lparr>authenticated = True, role = Some PLAYER, ConnectionInfo.team_id = Some ''t1''\<rparr>"


section \<open>Lists and the objects found in them\<close>

lemma find_Some_mem: "find P xs = Some x \<Longrightarrow> x \<in> set xs \<and> P x"
  by (induction xs) (auto split: if_splits)



lemma find_update_first:
  "find P xs = Some x \<Longrightarrow> P (f x) \<Longrightarrow> find P (update_first P f xs) = Some (f x)"
  by (induction xs) (auto split: if_splits)

lemma update_first_none: "find P xs = None \<Longrightarrow> update_first P f xs = xs"
  by (induction xs) (auto split: if_splits)

lemma list_all_update_first:
  "find P xs = Some x \<Longrightarrow> list_all Q xs \<Longrightarrow> Q (f x) \<Longrightarrow> list_all Q (update_first P f xs)"
  by (induction xs) (auto split: if_splits)

lemma all_update_first:
  "list_all Q xs \<Longrightarrow> (\<And>x. Q x \<Longrightarrow> Q (f x)) \<Longrightarrow> list_all Q (update_first P f xs)"
  by (induction xs) auto

lemma pos_update_first:
  "0 < a \<Longrightarrow> list_all (\<lambda>p. 0 < Placement.amount p) xs \<Longrightarrow>
   list_all (\<lambda>p. 0 < Placement.amount p)
     (update_first P (\<lambda>p. p\<lparr>Placement.amount := a\<rparr>) xs)"
  by (induction xs) auto

lemma sum_update_first:
  "find (\<lambda>p. Placement.cell_id p = cid) xs = Some p \<Longrightarrow>
   sum_list (map Placement.amount
     (update_first (\<lambda>p. Placement.cell_id p = cid) (\<lambda>p. p\<lparr>Placement.amount := a\<rparr>) xs)) =
   sum_list (map Placement.amount xs) - Placement.amount p + a"
  by (induction xs) (auto split: if_splits)

lemma sum_remove1:
  "p \<in> set xs \<Longrightarrow>
   sum_list (map Placement.amount (remove1 p xs)) =
   sum_list (map Placement.amount xs) - Placement.amount p"
  by (simp add: sum_list_map_remove1)

lemma all_remove1: "list_all Q xs \<Longrightarrow> list_all Q (remove1 p xs)"
  by (induction xs) auto

section \<open>Dicts filled by a loop\<close>

lemma fold_update_other:
  "x \<notin> k ` set ps \<Longrightarrow> map_of (fold (\<lambda>p. AList.update (k p) (v p)) ps acc) x = map_of acc x"
  by (induction ps arbitrary: acc) (auto simp: update_conv')

lemma fold_update_distinct:
  "distinct (map k ps) \<Longrightarrow> p \<in> set ps \<Longrightarrow>
   map_of (fold (\<lambda>p. AList.update (k p) (v p)) ps acc) (k p) = Some (v p)"
proof (induction ps arbitrary: acc)
  case Nil
  then show ?case by simp
next
  case (Cons q ps)
  show ?case
  proof (cases "p = q")
    case True
    with Cons.prems have "k p \<notin> k ` set ps" by auto
    then show ?thesis using True by (simp add: fold_update_other update_conv')
  next
    case False
    with Cons show ?thesis by auto
  qed
qed

lemma fold_update_keys:
  "fst ` set (fold (\<lambda>p. AList.update (k p) (v p)) ps acc) = k ` set ps \<union> fst ` set acc"
  by (induction ps arbitrary: acc) (auto simp: dom_update)



lemma filter_distinct_count:
  "distinct (map f xs) \<Longrightarrow> length (remdups (map f (filter P xs))) = length (filter P xs)"
  by (metis distinct_map_filter distinct_remdups_id length_map)

lemma py_max_Max: "xs \<noteq> [] \<Longrightarrow> py_max xs = Inr (Max (set xs))"
  by (cases xs) (simp_all add: Max.set_eq_fold [symmetric] del: set_simps)

lemma assign_scores_distinct:
  "distinct (map CellPlacement.team_id ps) \<Longrightarrow> p \<in> set ps \<Longrightarrow>
   map_of (assign_scores v ps) (CellPlacement.team_id p) = Some (v p)"
  unfolding assign_scores_def by (rule fold_update_distinct)

lemma assign_scores_keys:
  "fst ` set (assign_scores v ps) = CellPlacement.team_id ` set ps"
  unfolding assign_scores_def by (simp add: fold_update_keys)

lemma map_of_update_other: "k \<noteq> k' \<Longrightarrow> map_of (AList.update k v al) k' = map_of al k'"
  by (simp add: update_conv')

section \<open>Project success\<close>

text \<open>
  Claim C3 counts the distinct teams with a positive contribution. The code counts the
  entries of the list: a list naming team \<open>t1\<close> twice with 10 each passes the thresholds
  20 and 2, although one team only contributed.
\<close>

theorem project_success_counterexample:
  "\<not> (success (calculate_project_result contributions_dup 20 2) \<longleftrightarrow>
        20 \<le> sum_list (map Contribution.amount contributions_dup) \<and>
        2 \<le> int (distinct_contributing_teams contributions_dup))"
  by (simp add: calculate_project_result_def contributions_dup_def distinct_contributing_teams_def)

text \<open>
  Claim C3, amended: the project succeeds if and only if the total contribution is at
  least \<open>min_total\<close> and the number of list entries with a positive amount is at least
  \<open>min_teams\<close> (so equality on both thresholds is a success and one unit less on either
  is a failure); when no team occurs twice in the list, that number is the number of
  distinct contributing teams.
\<close>

theorem project_success_iff:
  "(success (calculate_project_result cs mt mn) \<longleftrightarrow>
      mt \<le> sum_list (map Contribution.amount cs) \<and>
      mn \<le> int (length (filter (\<lambda>c. Contribution.amount c > 0) cs))) \<and>
   (distinct (map Contribution.team_id cs) \<longrightarrow>
      (success (calculate_project_result cs mt mn) \<longleftrightarrow>
         mt \<le> sum_list (map Contribution.amount cs) \<and>
         mn \<le> int (distinct_contributing_teams cs)))"
  by (simp add: calculate_project_result_def Let_def distinct_contributing_teams_def
      filter_distinct_count)

theorem project_success_iff_witness:
  "distinct (map Contribution.team_id contributions_three) \<and>
   success (calculate_project_result contributions_three 20 3) \<and>
   \<not> success (calculate_project_result contributions_three 21 3) \<and>
   \<not> success (calculate_project_result contributions_three 20 4)"
proof -
  have d: "distinct (map Contribution.team_id contributions_three)"
    by (simp add: contributions_three_def)
  have v: "sum_list (map Contribution.amount contributions_three) = 20"
    "distinct_contributing_teams contributions_three = 3"
    "length (filter (\<lambda>c. 0 < Contribution.amount c) contributions_three) = 3"
    by (simp_all add: contributions_three_def distinct_contributing_teams_def)
  show ?thesis
    using d v project_success_iff [of contributions_three 20 3]
      project_success_iff [of contributions_three 21 3]
      project_success_iff [of contributions_three 20 4]
    by simp
qed

section \<open>Competitive cells\<close>

text \<open>
  Claim C9: on a competitive cell whose positive placements are non-empty and name each
  team once, every team holding the highest amount \<open>M\<close> scores
  \<open>M \<times> 3/2\<close> divided by the number of such teams, every other contributor scores 0,
  and nobody else is scored; with two teams at the maximum each gets half the pool.
\<close>

theorem competitive_winners_split:
  assumes comp: "type_cell cell = COMPETITIVE"
    and ps: "ps = filter (\<lambda>p. CellPlacement.amount p > 0) (BoardCell.placements cell)"
    and ne: "ps \<noteq> []"
    and dist: "distinct (map CellPlacement.team_id ps)"
    and M: "M = Max (set (map CellPlacement.amount ps))"
    and n: "n = length (filter (\<lambda>p. CellPlacement.amount p = M) ps)"
  shows "\<exists>sc. calculate_cell_scores cell = Inr sc \<and>
           fst ` set sc = CellPlacement.team_id ` set ps \<and>
           (\<forall>p \<in> set ps. map_of sc (CellPlacement.team_id p) =
              Some (if CellPlacement.amount p = M then (of_int M * (3 / 2)) / of_nat n else 0)) \<and>
           (n = 2 \<longrightarrow> (\<forall>p \<in> set ps. CellPlacement.amount p = M \<longrightarrow>
              map_of sc (CellPlacement.team_id p) = Some ((of_int M * (3 / 2)) / 2)))"
proof -
  let ?v = "\<lambda>p. if CellPlacement.amount p = M then (of_int M * (3 / 2)) / of_nat n else (0::rat)"
  have mx: "py_max (map CellPlacement.amount ps) = Inr M"
    using ne M by (simp add: py_max_Max)
  have calc: "calculate_cell_scores cell = Inr (assign_scores ?v ps)"
    unfolding n using comp ne mx ps [symmetric]
    by (simp add: calculate_cell_scores_def score_competitive_def CELL_MULTIPLIERS_def Let_def)
  have vals: "\<forall>p \<in> set ps. map_of (assign_scores ?v ps) (CellPlacement.team_id p) = Some (?v p)"
    using dist by (simp add: assign_scores_distinct)
  have tie: "n = 2 \<longrightarrow> (\<forall>p \<in> set ps. CellPlacement.amount p = M \<longrightarrow>
      map_of (assign_scores ?v ps) (CellPlacement.team_id p) = Some ((of_int M * (3 / 2)) / 2))"
    using vals by simp
  show ?thesis
    using calc vals tie assign_scores_keys [of ?v ps] by blast
qed

theorem competitive_winners_split_witness:
  "type_cell cell_tie = COMPETITIVE \<and>
   filter (\<lambda>p. CellPlacement.amount p > 0) (BoardCell.placements cell_tie) \<noteq> [] \<and>
   distinct (map CellPlacement.team_id
     (filter (\<lambda>p. CellPlacement.amount p > 0) (BoardCell.placements cell_tie))) \<and>
   (\<exists>sc. calculate_cell_scores cell_tie = Inr sc \<and> map_of sc ''a'' = Some (15 / 4) \<and>
      map_of sc ''b'' = Some 0 \<and> map_of sc ''c'' = Some (15 / 4))"
proof -
  let ?ps = "filter (\<lambda>p. CellPlacement.amount p > 0) (BoardCell.placements cell_tie)"
  have ps: "?ps = [\<lparr>CellPlacement.team_id = ''a'', CellPlacement.amount = 5\<rparr>,
         \<lparr>CellPlacement.team_id = ''b'', CellPlacement.amount = 3\<rparr>,
         \<lparr>CellPlacement.team_id = ''c'', CellPlacement.amount = 5\<rparr>]"
    by (simp add: cell_tie_def)
  have h: "type_cell cell_tie = COMPETITIVE" "?ps \<noteq> []"
    "distinct (map CellPlacement.team_id ?ps)"
    "5 = Max (set (map CellPlacement.amount ?ps))"
    "2 = length (filter (\<lambda>p. CellPlacement.amount p = 5) ?ps)"
    unfolding ps by (simp_all add: cell_tie_def)
  from competitive_winners_split [OF h(1) refl h(2) h(3) h(4) h(5)]
  obtain sc where sc: "calculate_cell_scores cell_tie = Inr sc"
    "\<forall>p \<in> set ?ps. map_of sc (CellPlacement.team_id p) =
       Some (if CellPlacement.amount p = 5 then (of_int 5 * (3 / 2)) / of_nat 2 else 0)"
    by blast
  from sc(2) have "map_of sc ''a'' = Some (15 / 4)" "map_of sc ''b'' = Some 0"
    "map_of sc ''c'' = Some (15 / 4)"
    unfolding ps by simp_all
  with sc(1) h show ?thesis by blast
qed

section \<open>National indices\<close>

lemma setattr_index_bounds:
  "within_bounds idx \<Longrightarrow> 0 \<le> v \<Longrightarrow> v \<le> INDEX_MAXIMUM \<Longrightarrow>
   within_bounds (setattr_index idx key v)"
  by (simp add: within_bounds_def setattr_index_def)

lemma apply_change_bounds:
  "within_bounds idx \<Longrightarrow> within_bounds (apply_change INDEX_MAXIMUM kd idx)"
  by (auto simp: apply_change_def Let_def INDEX_MAXIMUM_def intro!: setattr_index_bounds
      split: option.splits)

lemma apply_changes_bounds:
  "within_bounds idx \<Longrightarrow> within_bounds (apply_changes idx changes INDEX_MAXIMUM)"
  unfolding apply_changes_def
  by (induction changes arbitrary: idx) (simp_all add: apply_change_bounds)

lemma apply_maintenance_bounds:
  "within_bounds idx \<Longrightarrow> within_bounds (apply_maintenance idx)"
proof -
  have step: "within_bounds (fold (\<lambda>kc s. apply_changes s [(fst kc, - snd kc)] 30) cs i)"
    if "within_bounds i" for cs i
    using that
  proof (induction cs arbitrary: i)
    case Nil
    then show ?case by simp
  next
    case (Cons c cs)
    have "within_bounds (apply_changes i [(fst c, - snd c)] INDEX_MAXIMUM)"
      using Cons.prems by (rule apply_changes_bounds)
    then show ?case using Cons.IH by (simp add: INDEX_MAXIMUM_def)
  qed
  assume "within_bounds idx"
  then show ?thesis unfolding apply_maintenance_def by (rule step)
qed

lemma game_state_finish_turn:
  "game_state (snd (finish_turn room gs b pcs crs ich tts)) = Some gs"
  by (simp add: finish_turn_def Let_def)

lemma game_state_stamp:
  "game_state (stamp now room) =
   map_option (\<lambda>gs. gs\<lparr>phase_start_time := Some now, is_paused := False\<rparr>) (game_state room)"
  by (simp add: stamp_def)

lemma stamp_bounds: "indices_within_bounds (stamp now room) = indices_within_bounds room"
  by (simp add: stamp_def indices_within_bounds_def split: option.splits)

lemma process_turn_bounds:
  assumes "indices_within_bounds room"
  shows "indices_within_bounds (snd (process_turn room))"
proof (cases "game_state room")
  case None
  then show ?thesis using assms by (simp add: process_turn_def)
next
  case (Some gs)
  then have b: "within_bounds (national_indices gs)"
    using assms by (simp add: indices_within_bounds_def)
  show ?thesis
    using Some b
    by (auto simp: process_turn_def Let_def game_state_finish_turn apply_changes_bounds
        indices_within_bounds_def
        split: sum.splits option.splits prod.splits)
qed

lemma advance_phase_bounds:
  assumes "indices_within_bounds room"
  shows "indices_within_bounds (snd (advance_phase room now))"
proof (cases "game_state room")
  case None
  then show ?thesis using assms by (simp add: advance_phase_def)
next
  case (Some gs)
  then have b: "within_bounds (national_indices gs)"
    using assms by (simp add: indices_within_bounds_def)
  show ?thesis
  proof (cases "current_phase gs")
    case EVENT
    then show ?thesis using Some b
      by (simp add: advance_phase_def game_state_stamp indices_within_bounds_def)
  next
    case ACTION
    let ?room1 = "room\<lparr>game_state := Some
                              (gs\<lparr>current_phase := RESOLUTION,
                                   phase_time_limit := PHASE_RESOLUTION_DURATION\<rparr>),
                            teams := map (\<lambda>t. t\<lparr>has_submitted := True\<rparr>) (teams room)\<rparr>"
    have "indices_within_bounds ?room1"
      using b by (simp add: indices_within_bounds_def)
    then have "indices_within_bounds (snd (process_turn ?room1))"
      by (rule process_turn_bounds)
    then show ?thesis using Some ACTION
      by (auto simp: advance_phase_def Let_def stamp_bounds split: prod.splits sum.splits)
  next
    case RESOLUTION
    then show ?thesis using Some b
      by (simp add: advance_phase_def game_state_stamp indices_within_bounds_def)
  next
    case RESULT
    have "within_bounds (apply_maintenance (national_indices gs))"
      using b by (rule apply_maintenance_bounds)
    then show ?thesis using Some RESULT
      by (simp add: advance_phase_def Let_def game_state_stamp indices_within_bounds_def)
  qed
qed

lemma starting_indices_bounds: "within_bounds (NationalIndices_of STARTING_INDICES)"
  by (simp add: within_bounds_def NationalIndices_of_def STARTING_INDICES_def INDEX_MAXIMUM_def)

lemma start_game_bounds:
  "indices_within_bounds room \<Longrightarrow> indices_within_bounds (snd (start_game room now))"
  by (simp add: start_game_def Let_def indices_within_bounds_def starting_indices_bounds)

text \<open>
  Claim C4: indices that lie within \<open>[0, INDEX_MAXIMUM]\<close> stay there under
  \<open>apply_changes\<close> with any dict of deltas and under the per-turn maintenance cost;
  hence starting a game, resolving a turn and every \<open>advance_phase\<close> keep the indices of a
  room within the bounds.
\<close>

theorem indices_stay_within_bounds:
  "(within_bounds idx \<longrightarrow>
      within_bounds (apply_changes idx changes INDEX_MAXIMUM) \<and>
      within_bounds (apply_maintenance idx)) \<and>
   (indices_within_bounds room \<longrightarrow>
      indices_within_bounds (snd (start_game room now)) \<and>
      indices_within_bounds (snd (process_turn room)) \<and>
      indices_within_bounds (snd (advance_phase room now)))"
  using apply_changes_bounds [of idx changes] apply_maintenance_bounds [of idx]
    start_game_bounds [of room now] process_turn_bounds [of room]
    advance_phase_bounds [of room now]
  by blast

theorem indices_stay_within_bounds_witness:
  "within_bounds (NationalIndices_of STARTING_INDICES) \<and>
   indices_within_bounds room_event \<and>
   apply_changes (NationalIndices_of STARTING_INDICES) changes_extreme INDEX_MAXIMUM =
     \<lparr>economy = 0, society = 10, culture = 10, integration = 10, environment = 10,
      science = 30\<rparr> \<and>
   within_bounds (apply_changes (NationalIndices_of STARTING_INDICES) changes_extreme
     INDEX_MAXIMUM) \<and>
   indices_within_bounds (snd (advance_phase room_event 2))"
proof -
  have h: "within_bounds (NationalIndices_of STARTING_INDICES)"
    by (simp add: within_bounds_def NationalIndices_of_def STARTING_INDICES_def
        INDEX_MAXIMUM_def)
  have r: "indices_within_bounds room_event"
    using h
    by (simp add: indices_within_bounds_def room_event_def start_game_def room_waiting_def
        team_of_def Let_def)
  have v: "apply_changes (NationalIndices_of STARTING_INDICES) changes_extreme INDEX_MAXIMUM =
     \<lparr>economy = 0, society = 10, culture = 10, integration = 10, environment = 10,
      science = 30\<rparr>"
    by (simp add: apply_changes_def apply_change_def getattr_index_def setattr_index_def
        NationalIndices_of_def STARTING_INDICES_def changes_extreme_def INDEX_MAXIMUM_def)
  show ?thesis
    using h r v
      indices_stay_within_bounds [of "NationalIndices_of STARTING_INDICES" changes_extreme
        room_event 2]
    by simp
qed

section \<open>Placing resources\<close>

lemma teams_sync [simp]: "teams (sync_placements_to_board room) = teams room"
  by (simp add: sync_placements_to_board_def Let_def split: option.splits)

lemma place_resource_error_iff:
  "isl (fst (place_resource room tid cid amt)) \<longleftrightarrow>
     game_state room = None \<or>
     (\<exists>gs. game_state room = Some gs \<and> current_phase gs \<noteq> ACTION) \<or>
     find (\<lambda>t. id_team t = tid) (teams room) = None \<or>
     (\<exists>team. find (\<lambda>t. id_team t = tid) (teams room) = Some team \<and> has_submitted team) \<or>
     (\<exists>team. find (\<lambda>t. id_team t = tid) (teams room) = Some team \<and>
        amt - placed_amount team cid > resources team) \<or>
     amt < 0"
  by (auto simp: place_resource_def placed_amount_def Let_def split: option.splits)

lemma place_resource_error_unchanged:
  "isl (fst (place_resource room tid cid amt)) \<Longrightarrow> snd (place_resource room tid cid amt) = room"
  by (auto simp: place_resource_def Let_def split: option.splits if_splits)

lemma room_event_state: "map_option current_phase (game_state room_event) = Some EVENT"
  by (simp add: room_event_def start_game_def room_waiting_def team_of_def Let_def)

lemma room_action_phase: "map_option current_phase (game_state room_action) = Some ACTION"
  by (simp add: room_action_def advance_phase_def room_event_def start_game_def room_waiting_def team_of_def Let_def stamp_def)

text \<open>
  Claim C5: \<open>place_resource\<close> raises exactly when the game has not started, the phase
  is not \<open>ACTION\<close>, the team is unknown, the team has submitted, the change (amount minus
  the team's current placement on the cell) exceeds the team's remaining resources, or the
  amount is negative; and when it raises, the room is as it was.
\<close>

theorem place_resource_errors:
  "(isl (fst (place_resource room tid cid amt)) \<longleftrightarrow>
     game_state room = None \<or>
     (\<exists>gs. game_state room = Some gs \<and> current_phase gs \<noteq> ACTION) \<or>
     find (\<lambda>t. id_team t = tid) (teams room) = None \<or>
     (\<exists>team. find (\<lambda>t. id_team t = tid) (teams room) = Some team \<and> has_submitted team) \<or>
     (\<exists>team. find (\<lambda>t. id_team t = tid) (teams room) = Some team \<and>
        amt - placed_amount team cid > resources team) \<or>
     amt < 0) \<and>
   (isl (fst (place_resource room tid cid amt)) \<longrightarrow>
     snd (place_resource room tid cid amt) = room)"
  using place_resource_error_iff [of room tid cid amt]
    place_resource_error_unchanged [of room tid cid amt]
  by blast

theorem place_resource_errors_witness:
  "isl (fst (place_resource room_event ''t1'' ''cell-0-0'' 5)) \<and>
   snd (place_resource room_event ''t1'' ''cell-0-0'' 5) = room_event \<and>
   isl (fst (place_resource room_action ''t1'' ''cell-0-0'' 15)) \<and>
   snd (place_resource room_action ''t1'' ''cell-0-0'' 15) = room_action \<and>
   \<not> isl (fst (place_resource room_action ''t1'' ''cell-0-0'' 14))"
proof -
  have e: "isl (fst (place_resource room_event ''t1'' ''cell-0-0'' 5))"
    using room_event_state
    by (auto simp: place_resource_def split: option.splits)
  have t1: "find (\<lambda>t. id_team t = ''t1'') (teams room_action) = Some (team_of ''t1'' 0 True)"
    by (simp add: room_action_def advance_phase_def room_event_def start_game_def
        room_waiting_def team_of_def Let_def stamp_def reset_team_def RESOURCES_PER_TURN_def)
  have pa: "placed_amount (team_of ''t1'' 0 True) ''cell-0-0'' = 0"
    "resources (team_of ''t1'' 0 True) = 14" "\<not> has_submitted (team_of ''t1'' 0 True)"
    by (simp_all add: placed_amount_def team_of_def)
  obtain gs where gs: "game_state room_action = Some gs" "current_phase gs = ACTION"
    using room_action_phase by auto
  have a15: "isl (fst (place_resource room_action ''t1'' ''cell-0-0'' 15))"
    using t1 pa place_resource_errors [of room_action "''t1''" "''cell-0-0''" 15] by simp
  have a14: "\<not> isl (fst (place_resource room_action ''t1'' ''cell-0-0'' 14))"
    using t1 pa gs place_resource_errors [of room_action "''t1''" "''cell-0-0''" 14] by simp
  show ?thesis
    using e a15 a14 place_resource_errors [of room_event "''t1''" "''cell-0-0''" 5]
      place_resource_errors [of room_action "''t1''" "''cell-0-0''" 15]
    by simp
qed

lemma place_resource_budget:
  assumes ok: "list_all team_budget_ok (teams room)"
    and succ: "fst (place_resource room tid cid amt) = Inr ()"
  shows "list_all team_budget_ok (teams (snd (place_resource room tid cid amt)))"
proof -
  from succ obtain gs where gs: "game_state room = Some gs" "current_phase gs = ACTION"
    by (auto simp: place_resource_def Let_def split: option.splits if_splits)
  from succ gs obtain team where team: "find (\<lambda>t. id_team t = tid) (teams room) = Some team"
    "\<not> has_submitted team"
    by (auto simp: place_resource_def Let_def split: option.splits if_splits)
  let ?cur = "find (\<lambda>p. Placement.cell_id p = cid) (Team.placements team)"
  let ?change = "amt - placed_amount team cid"
  from succ gs team have chk: "\<not> ?change > resources team" "\<not> amt < 0"
    by (auto simp: place_resource_def placed_amount_def Let_def split: option.splits if_splits)
  let ?new = "(case ?cur of
                 Some p \<Rightarrow>
                   if amt = 0 then remove1 p (Team.placements team)
                   else update_first (\<lambda>p. Placement.cell_id p = cid)
                          (\<lambda>p. p\<lparr>Placement.amount := amt\<rparr>) (Team.placements team)
               | None \<Rightarrow>
                   if amt > 0
                   then Team.placements team @
                          [\<lparr>Placement.cell_id = cid, Placement.amount = amt\<rparr>]
                   else Team.placements team)"
  let ?f = "\<lambda>t. t\<lparr>resources := resources t - ?change, Team.placements := ?new\<rparr>"
  have res: "teams (snd (place_resource room tid cid amt)) =
      update_first (\<lambda>t. id_team t = tid) ?f (teams room)"
    using gs team chk
    by (simp add: place_resource_def placed_amount_def Let_def split: option.splits)
  have tok: "team_budget_ok team"
    using ok team(1) find_Some_mem [OF team(1)] by (auto simp: list_all_iff)
  have sum_new: "sum_list (map Placement.amount ?new) = placed_total team + ?change"
  proof (cases ?cur)
    case None
    then show ?thesis using chk
      by (auto simp: placed_total_def placed_amount_def)
  next
    case (Some p)
    then have "p \<in> set (Team.placements team)" by (auto dest: find_Some_mem)
    then show ?thesis using Some
      by (auto simp: placed_total_def placed_amount_def sum_remove1 sum_update_first)
  qed
  have pos_new: "list_all (\<lambda>p. 0 < Placement.amount p) ?new"
  proof (cases ?cur)
    case None
    then show ?thesis using tok by (auto simp: team_budget_ok_def)
  next
    case (Some p)
    have "list_all (\<lambda>p. 0 < Placement.amount p)
            (update_first (\<lambda>p. Placement.cell_id p = cid)
               (\<lambda>p. p\<lparr>Placement.amount := amt\<rparr>) (Team.placements team))"
      if "amt \<noteq> 0"
    proof -
      from that chk have "0 < amt" by simp
      then show ?thesis
        using tok by (simp add: team_budget_ok_def pos_update_first)
    qed
    then show ?thesis using Some tok
      by (auto simp: team_budget_ok_def all_remove1)
  qed
  have "team_budget_ok (?f team)"
    using tok chk sum_new pos_new
    by (simp add: team_budget_ok_def placed_total_def)
  with ok team(1) show ?thesis
    unfolding res by (intro list_all_update_first)
qed

lemma reset_team_budget_ok: "team_budget_ok (reset_team team)"
  by (simp add: team_budget_ok_def reset_team_def placed_total_def RESOURCES_PER_TURN_def)

lemma budget_le:
  "team_budget_ok team \<Longrightarrow> placed_total team \<le> RESOURCES_PER_TURN"
  by (simp add: team_budget_ok_def)

text \<open>
  Claim C2 bounds the sum of a team's placements by its \<open>resources\<close> field. The field
  is the remaining counter: placing 10 of the 14 resources leaves \<open>resources = 4\<close> with
  placements summing to 10.
\<close>

theorem placement_sum_counterexample:
  "fst (place_resource room_action ''t1'' ''cell-0-0'' 10) = Inr () \<and>
   map (\<lambda>t. (id_team t, placed_total t, resources t))
     (teams (snd (place_resource room_action ''t1'' ''cell-0-0'' 10))) =
     [(''t1'', 10, 4), (''t2'', 0, 14), (''t3'', 0, 14), (''t4'', 0, 14), (''t5'', 0, 14)] \<and>
   \<not> list_all (\<lambda>t. placed_total t \<le> resources t)
       (teams (snd (place_resource room_action ''t1'' ''cell-0-0'' 10)))"
  by (simp add: place_resource_def room_action_def advance_phase_def room_event_def
      start_game_def room_waiting_def team_of_def Let_def stamp_def placed_total_def
      reset_team_def RESOURCES_PER_TURN_def)

text \<open>
  Claim C2, amended: a successful \<open>place_resource\<close> keeps, for every team, the placement
  amounts positive, the resource counter non-negative and placements plus remaining
  resources equal to \<open>RESOURCES_PER_TURN\<close>, so the sum of the placement amounts is at
  most the resources granted this turn; \<open>start_game\<close> establishes this for every team.
\<close>

theorem place_resource_keeps_budget:
  "(list_all team_budget_ok (teams room) \<and> fst (place_resource room tid cid amt) = Inr () \<longrightarrow>
      list_all team_budget_ok (teams (snd (place_resource room tid cid amt))) \<and>
      list_all (\<lambda>t. placed_total t \<le> RESOURCES_PER_TURN)
        (teams (snd (place_resource room tid cid amt)))) \<and>
   (fst (start_game room now) = Inr () \<longrightarrow>
      list_all team_budget_ok (teams (snd (start_game room now))))"
proof -
  have a: "list_all team_budget_ok (teams (snd (place_resource room tid cid amt))) \<and>
      list_all (\<lambda>t. placed_total t \<le> RESOURCES_PER_TURN)
        (teams (snd (place_resource room tid cid amt)))"
    if "list_all team_budget_ok (teams room)" "fst (place_resource room tid cid amt) = Inr ()"
  proof -
    have "list_all team_budget_ok (teams (snd (place_resource room tid cid amt)))"
      using that by (rule place_resource_budget)
    then show ?thesis by (auto simp: list_all_iff budget_le)
  qed
  have b: "list_all team_budget_ok (teams (snd (start_game room now)))"
    if "fst (start_game room now) = Inr ()"
    using that
    by (auto simp: start_game_def Let_def list_all_iff reset_team_budget_ok split: if_splits)
  show ?thesis using a b by blast
qed

theorem place_resource_keeps_budget_witness:
  "list_all team_budget_ok (teams room_action) \<and>
   fst (place_resource room_action ''t1'' ''cell-0-0'' 10) = Inr () \<and>
   fst (start_game room_waiting 1) = Inr () \<and>
   list_all team_budget_ok (teams (snd (place_resource room_action ''t1'' ''cell-0-0'' 10))) \<and>
   list_all (\<lambda>t. placed_total t \<le> RESOURCES_PER_TURN)
     (teams (snd (place_resource room_action ''t1'' ''cell-0-0'' 10))) \<and>
   list_all team_budget_ok (teams (snd (start_game room_waiting 1)))"
proof -
  have h: "list_all team_budget_ok (teams room_action)"
    by (simp add: room_action_def advance_phase_def room_event_def
      start_game_def room_waiting_def team_of_def Let_def stamp_def placed_total_def
      reset_team_def RESOURCES_PER_TURN_def team_budget_ok_def)
  have s: "fst (place_resource room_action ''t1'' ''cell-0-0'' 10) = Inr ()"
    by (simp add: place_resource_def room_action_def advance_phase_def room_event_def
      start_game_def room_waiting_def team_of_def Let_def stamp_def
      reset_team_def RESOURCES_PER_TURN_def)
  have g: "fst (start_game room_waiting 1) = Inr ()"
    by (simp add: start_game_def room_waiting_def team_of_def Let_def)
  show ?thesis
    using h s g place_resource_keeps_budget [of room_action "''t1''" "''cell-0-0''" 10 1]
      place_resource_keeps_budget [of room_waiting "''t1''" "''cell-0-0''" 10 1]
    by simp
qed

section \<open>Submitting a turn\<close>

text \<open>
  Claim C10: \<open>submit_turn\<close> raises if and only if no team of the room has the given id;
  for a known team it succeeds and the team found under that id is submitted afterwards.
  Neither the game state (absent before the game starts) nor the room status is read or
  changed: the call commutes with any assignment to them.
\<close>

theorem submit_turn_fails_only_for_unknown_team:
  "(isl (fst (submit_turn room tid)) \<longleftrightarrow> tid \<notin> id_team ` set (teams room)) \<and>
   (tid \<in> id_team ` set (teams room) \<longrightarrow>
      fst (submit_turn room tid) = Inr () \<and>
      (\<exists>team. find (\<lambda>t. id_team t = tid) (teams (snd (submit_turn room tid))) = Some team \<and>
         has_submitted team)) \<and>
   submit_turn (room\<lparr>game_state := g, status := s\<rparr>) tid =
     (fst (submit_turn room tid), (snd (submit_turn room tid))\<lparr>game_state := g, status := s\<rparr>)"
proof -
  have none: "find (\<lambda>t. id_team t = tid) (teams room) = None \<longleftrightarrow>
      tid \<notin> id_team ` set (teams room)"
    by (auto simp: find_None_iff)
  have a: "isl (fst (submit_turn room tid)) \<longleftrightarrow> tid \<notin> id_team ` set (teams room)"
    using none by (auto simp: submit_turn_def split: option.splits)
  have b: "fst (submit_turn room tid) = Inr () \<and>
      (\<exists>team. find (\<lambda>t. id_team t = tid) (teams (snd (submit_turn room tid))) = Some team \<and>
         has_submitted team)" if "tid \<in> id_team ` set (teams room)"
  proof -
    from that none obtain team where t: "find (\<lambda>t. id_team t = tid) (teams room) = Some team"
      by (cases "find (\<lambda>t. id_team t = tid) (teams room)") auto
    then have "id_team team = tid" by (auto dest: find_Some_mem)
    then have "find (\<lambda>t. id_team t = tid)
        (update_first (\<lambda>t. id_team t = tid) (\<lambda>t. t\<lparr>has_submitted := True\<rparr>) (teams room)) =
        Some (team\<lparr>has_submitted := True\<rparr>)"
      using t by (intro find_update_first) simp_all
    then show ?thesis using t by (simp add: submit_turn_def)
  qed
  have c: "submit_turn (room\<lparr>game_state := g, status := s\<rparr>) tid =
     (fst (submit_turn room tid), (snd (submit_turn room tid))\<lparr>game_state := g, status := s\<rparr>)"
    by (simp add: submit_turn_def split: option.splits)
  show ?thesis using a b c by blast
qed

theorem submit_turn_fails_only_for_unknown_team_witness:
  "game_state room_waiting = None \<and> status room_waiting = WAITING \<and>
   ''t2'' \<in> id_team ` set (teams room_waiting) \<and>
   fst (submit_turn room_waiting ''t2'') = Inr () \<and>
   map has_submitted (teams (snd (submit_turn room_waiting ''t2''))) =
     [False, True, False, False, False] \<and>
   isl (fst (submit_turn room_waiting ''t9''))"
proof -
  have m: "''t2'' \<in> id_team ` set (teams room_waiting)"
    "''t9'' \<notin> id_team ` set (teams room_waiting)"
    by (simp_all add: room_waiting_def team_of_def)
  have v: "map has_submitted (teams (snd (submit_turn room_waiting ''t2''))) =
     [False, True, False, False, False]"
    "game_state room_waiting = None" "status room_waiting = WAITING"
    by (simp_all add: submit_turn_def room_waiting_def team_of_def)
  show ?thesis
    using m v submit_turn_fails_only_for_unknown_team [of room_waiting "''t2''"]
      submit_turn_fails_only_for_unknown_team [of room_waiting "''t9''"]
    by simp
qed

section \<open>Advancing the phase\<close>

lemma process_turn_phase:
  assumes "game_state room = Some gs" and "fst (process_turn room) = Inr res"
  shows "\<exists>gs'. game_state (snd (process_turn room)) = Some gs' \<and>
           current_phase gs' = current_phase gs"
  using assms
  by (auto simp: process_turn_def Let_def game_state_finish_turn finish_turn_def
      split: sum.splits option.splits prod.splits)

text \<open>
  Claim C6 says that every \<open>advance_phase\<close> transition, the one that ends the game
  included, stamps a new phase-start time and clears the pause flag. A game in which
  nobody places anything reaches turn 3 with \<open>economy = 0\<close>; the host pauses it in the
  \<open>RESULT\<close> phase (entered at time 12) and skips at time 100. That call marks the room
  \<open>FINISHED\<close> and returns at once: the phase is still \<open>RESULT\<close>, its start time is still
  12 and the pause flag is still set.
\<close>

theorem advance_phase_terminal_counterexample:
  "map_option (\<lambda>gs. (current_turn gs, current_phase gs, phase_start_time gs, is_paused gs))
     (game_state room_paused) = Some (3, RESULT, Some 12, True) \<and>
   \<not> isl (fst (advance_phase room_paused 100)) \<and>
   status (snd (advance_phase room_paused 100)) = FINISHED \<and>
   map_option (\<lambda>gs. (current_turn gs, current_phase gs, phase_start_time gs, is_paused gs))
     (game_state (snd (advance_phase room_paused 100))) = Some (3, RESULT, Some 12, True)"
  by code_simp

text \<open>
  Claim C6, amended: every call of \<open>advance_phase\<close> that returns and does not end the
  game moves to the next phase of the cycle, stamps the phase-start time with the current
  time and clears the pause flag (only the \<open>ACTION\<close> branch, which resolves the turn, can
  raise); the call that ends the game from \<open>RESULT\<close> sets the status \<open>FINISHED\<close> and
  leaves phase, phase-start time and pause flag as they were.
\<close>

theorem advance_phase_stamps_unless_game_ends:
  assumes gs: "game_state room = Some gs"
  shows "(current_phase gs \<noteq> ACTION \<longrightarrow> \<not> isl (fst (advance_phase room now))) \<and>
         (\<not> isl (fst (advance_phase room now)) \<and> \<not> ends_game gs \<longrightarrow>
            (\<exists>gs'. game_state (snd (advance_phase room now)) = Some gs' \<and>
               current_phase gs' = next_phase (current_phase gs) \<and>
               phase_start_time gs' = Some now \<and> \<not> is_paused gs')) \<and>
         (ends_game gs \<longrightarrow>
            status (snd (advance_phase room now)) = FINISHED \<and>
            (\<exists>gs'. game_state (snd (advance_phase room now)) = Some gs' \<and>
               current_phase gs' = RESULT \<and>
               phase_start_time gs' = phase_start_time gs \<and> is_paused gs' = is_paused gs))"
proof (cases "current_phase gs")
  case EVENT
  then show ?thesis using gs
    by (simp add: advance_phase_def game_state_stamp ends_game_def)
next
  case ACTION
  let ?room1 = "room\<lparr>game_state := Some
                              (gs\<lparr>current_phase := RESOLUTION,
                                   phase_time_limit := PHASE_RESOLUTION_DURATION\<rparr>),
                            teams := map (\<lambda>t. t\<lparr>has_submitted := True\<rparr>) (teams room)\<rparr>"
  have adv: "advance_phase room now =
      (case process_turn ?room1 of
         (Inl e, room2) \<Rightarrow> (Inl e, room2)
       | (Inr res, room2) \<Rightarrow> (Inr (RESOLUTION, Some res), stamp now room2))"
    using gs ACTION by (simp add: advance_phase_def Let_def)
  have "\<exists>gs'. game_state (snd (advance_phase room now)) = Some gs' \<and>
               current_phase gs' = RESOLUTION \<and>
               phase_start_time gs' = Some now \<and> \<not> is_paused gs'"
    if ok: "\<not> isl (fst (advance_phase room now))"
  proof -
    from ok adv obtain res where r: "fst (process_turn ?room1) = Inr res"
      by (cases "process_turn ?room1"; cases "fst (process_turn ?room1)") auto
    have "game_state ?room1 = Some (gs\<lparr>current_phase := RESOLUTION,
                                   phase_time_limit := PHASE_RESOLUTION_DURATION\<rparr>)"
      by simp
    from process_turn_phase [OF this r]
    obtain gs' where g: "game_state (snd (process_turn ?room1)) = Some gs'"
      "current_phase gs' = RESOLUTION" by auto
    show ?thesis
      using adv r g by (cases "process_turn ?room1") (auto simp: game_state_stamp)
  qed
  then show ?thesis using ACTION by (simp add: ends_game_def)
next
  case RESOLUTION
  then show ?thesis using gs
    by (simp add: advance_phase_def game_state_stamp ends_game_def)
next
  case RESULT
  then show ?thesis using gs
    by (auto simp: advance_phase_def game_state_stamp ends_game_def Let_def)
qed

lemma room_placed_facts:
  "map_option current_phase (game_state room_placed) = Some ACTION"
  "\<not> isl (fst (advance_phase room_placed 3))"
  by code_simp+

lemma room_paused_facts:
  "map_option (\<lambda>gs. (current_phase gs, phase_start_time gs, is_paused gs, ends_game gs))
     (game_state room_paused) = Some (RESULT, Some 12, True, True)"
  by code_simp

theorem advance_phase_stamps_unless_game_ends_witness:
  "(\<exists>gs. game_state room_placed = Some gs \<and> \<not> ends_game gs) \<and>
   \<not> isl (fst (advance_phase room_placed 3)) \<and>
   map_option (\<lambda>gs. (current_phase gs, phase_start_time gs, is_paused gs))
     (game_state (snd (advance_phase room_placed 3))) = Some (RESOLUTION, Some 3, False) \<and>
   (\<exists>gs. game_state room_paused = Some gs \<and> ends_game gs) \<and>
   status (snd (advance_phase room_paused 100)) = FINISHED \<and>
   map_option (\<lambda>gs. (current_phase gs, phase_start_time gs, is_paused gs))
     (game_state (snd (advance_phase room_paused 100))) = Some (RESULT, Some 12, True)"
proof -
  obtain gs where gs: "game_state room_placed = Some gs" "current_phase gs = ACTION"
    using room_placed_facts(1) by auto
  then have ne: "\<not> ends_game gs" by (simp add: ends_game_def)
  obtain gp where gp: "game_state room_paused = Some gp" "current_phase gp = RESULT"
    "phase_start_time gp = Some 12" "is_paused gp" "ends_game gp"
    using room_paused_facts by auto
  show ?thesis
    using gs ne gp room_placed_facts(2)
      advance_phase_stamps_unless_game_ends [OF gs(1), of 3]
      advance_phase_stamps_unless_game_ends [OF gp(1), of 100]
    by auto
qed

section \<open>The connection registry\<close>

text \<open>
  Claim C8 says that authenticating in one session does not depend on the bindings of
  another. The registry keeps one host binding for all sessions: with a connection in each
  of two sessions, the host of session \<open>BBBBBB\<close> authenticates when nothing else has
  happened, and is refused with \<open>Host already connected\<close> once the host of session
  \<open>AAAAAA\<close> has authenticated.
\<close>

theorem registry_host_binding_counterexample:
  "fst (authenticate manager_two_rooms 2 ''BBBBBB'' HOST None) = (True, []) \<and>
   fst (authenticate manager_two_rooms 1 ''AAAAAA'' HOST None) = (True, []) \<and>
   fst (authenticate (snd (authenticate manager_two_rooms 1 ''AAAAAA'' HOST None))
          2 ''BBBBBB'' HOST None) = (False, ''Host already connected'')"
  by (simp add: authenticate_def manager_two_rooms_def connect_def ConnectionManager_init_def
      ConnectionInfo_init_def Let_def)

lemma authenticate_frame:
  "a \<noteq> b \<Longrightarrow>
   map_of (connections (snd (authenticate m ws a rl tid))) b = map_of (connections m) b"
  by (auto simp: authenticate_def Let_def map_of_update_other split: option.splits)

lemma connect_frame:
  "a \<noteq> b \<Longrightarrow> map_of (connections (connect m ws a)) b = map_of (connections m) b"
  by (auto simp: connect_def Let_def map_of_update_other split: option.splits)

lemma disconnect_frame:
  "a \<noteq> b \<Longrightarrow> map_of (connections (snd (disconnect m ws a))) b = map_of (connections m) b"
  by (auto simp: disconnect_def Let_def map_of_update_other delete_conv' split: option.splits)

lemma authenticate_determined:
  "map_of (connections m1) b = map_of (connections m2) b \<Longrightarrow>
   host_connection m1 = host_connection m2 \<Longrightarrow>
   map_of (team_connections m1) = map_of (team_connections m2) \<Longrightarrow>
   fst (authenticate m1 ws b rl tid) = fst (authenticate m2 ws b rl tid)"
  by (auto simp: authenticate_def Let_def split: option.splits)

text \<open>
  Claim C8, amended: the table of connections is partitioned by session id, so
  \<open>connect\<close>, \<open>authenticate\<close> and \<open>disconnect\<close> in a session leave the table of every
  other session as it was; the result of authenticating in a session is determined by that
  session's table together with the host binding and the team bindings, which the registry
  keeps once for all sessions.
\<close>

theorem registry_partition:
  "(a \<noteq> b \<longrightarrow>
      map_of (connections (connect m ws a)) b = map_of (connections m) b \<and>
      map_of (connections (snd (authenticate m ws a rl tid))) b = map_of (connections m) b \<and>
      map_of (connections (snd (disconnect m ws a))) b = map_of (connections m) b) \<and>
   (map_of (connections m1) b = map_of (connections m2) b \<and>
    host_connection m1 = host_connection m2 \<and>
    map_of (team_connections m1) = map_of (team_connections m2) \<longrightarrow>
      fst (authenticate m1 ws' b rl' tid') = fst (authenticate m2 ws' b rl' tid'))"
  using connect_frame [of a b m ws] authenticate_frame [of a b m ws rl tid]
    disconnect_frame [of a b m ws] authenticate_determined [of m1 b m2 ws' rl' tid']
  by blast

theorem registry_partition_witness:
  "''AAAAAA'' \<noteq> ''BBBBBB'' \<and>
   map_of (connections manager_spectator_in_a) ''BBBBBB'' =
     map_of (connections manager_two_rooms) ''BBBBBB'' \<and>
   host_connection manager_spectator_in_a = host_connection manager_two_rooms \<and>
   map_of (team_connections manager_spectator_in_a) =
     map_of (team_connections manager_two_rooms) \<and>
   fst (authenticate manager_two_rooms 2 ''BBBBBB'' HOST None) = (True, []) \<and>
   fst (authenticate manager_spectator_in_a 2 ''BBBBBB'' HOST None) = (True, [])"
proof -
  have ne: "''AAAAAA'' \<noteq> ''BBBBBB''" by simp
  have h: "host_connection manager_spectator_in_a = host_connection manager_two_rooms"
    "map_of (team_connections manager_spectator_in_a) =
     map_of (team_connections manager_two_rooms)"
    by (simp_all add: manager_spectator_in_a_def authenticate_def manager_two_rooms_def
        connect_def ConnectionManager_init_def ConnectionInfo_init_def Let_def truthy_def)
  have v: "fst (authenticate manager_two_rooms 2 ''BBBBBB'' HOST None) = (True, [])"
    by (simp add: authenticate_def manager_two_rooms_def connect_def
        ConnectionManager_init_def ConnectionInfo_init_def Let_def)
  have f: "map_of (connections manager_spectator_in_a) ''BBBBBB'' =
     map_of (connections manager_two_rooms) ''BBBBBB''"
    using ne
      registry_partition [of "''AAAAAA''" "''BBBBBB''" manager_two_rooms 1 SPECTATOR None
        manager_two_rooms manager_two_rooms 2 HOST None]
    by (simp add: manager_spectator_in_a_def)
  have "fst (authenticate manager_spectator_in_a 2 ''BBBBBB'' HOST None) =
      fst (authenticate manager_two_rooms 2 ''BBBBBB'' HOST None)"
    using f h
      registry_partition [of "''AAAAAA''" "''BBBBBB''" manager_two_rooms 1 SPECTATOR None
        manager_spectator_in_a manager_two_rooms 2 HOST None]
    by simp
  with ne h v f show ?thesis by simp
qed

section \<open>The state projector\<close>

text \<open>
  Claim C7 says that the projected view never contains a credential, for the host as for
  the other roles. For a host the filter returns the message as it is: the state message
  of a room comes back with its \<open>host_token\<close> and the teams' \<open>session_token\<close>s.
\<close>

theorem host_view_counterexample:
  "filter_game_state (state_msg room_waiting) host_info = Inr (state_msg room_waiting) \<and>
   map_of (model_dump room_waiting) ''host_token'' = Some (JStr ''host-token'') \<and>
   carries_credentials (state_msg room_waiting)"
  by (simp add: filter_game_state_def state_msg_def host_info_def model_dump_def
      room_waiting_def carries_credentials_def)

lemma filter_team_dump:
  "\<exists>d. filter_team ci (Team_dump t) = Inr (JObj d) \<and>
        map_of d ''session_token'' = None \<and>
        filter_team ci (Team_dump (t\<lparr>session_token := s\<rparr>)) = Inr (JObj d)"
  by (simp add: filter_team_def Team_dump_def Let_def)

lemma filter_teams_dump:
  "\<exists>fts. filter_teams ci (map Team_dump ts) = Inr fts \<and> \<not> list_ex team_has_token fts"
proof (induction ts)
  case Nil
  then show ?case by simp
next
  case (Cons t ts)
  then obtain fts where fts: "filter_teams ci (map Team_dump ts) = Inr fts"
    "\<not> list_ex team_has_token fts" by blast
  obtain d where d: "filter_team ci (Team_dump t) = Inr (JObj d)"
    "map_of d ''session_token'' = None"
    using filter_team_dump [of ci t] by blast
  have "\<not> team_has_token (JObj d)"
    using d(2) by (simp add: team_has_token_def)
  then show ?case using fts d(1) by simp
qed

lemma filter_teams_tokens:
  "length toks = length ts \<Longrightarrow>
   filter_teams ci (map Team_dump (map (\<lambda>p. (fst p)\<lparr>session_token := snd p\<rparr>) (zip ts toks))) =
   filter_teams ci (map Team_dump ts)"
proof (induction ts arbitrary: toks)
  case Nil
  then show ?case by simp
next
  case (Cons t ts)
  then obtain s rest where toks: "toks = s # rest" "length rest = length ts"
    by (cases toks) auto
  obtain d where "filter_team ci (Team_dump t) = Inr (JObj d)"
    "filter_team ci (Team_dump (t\<lparr>session_token := s\<rparr>)) = Inr (JObj d)"
    using filter_team_dump [of ci t s] by blast
  then show ?case using toks Cons.IH [of rest] by simp
qed

text \<open>
  Claim C7, amended: for every recipient that is not a host (player, spectator, or a
  connection with no role) the filter returns, for the state message of any room, a view
  that carries neither \<open>host_token\<close> nor any team's \<open>session_token\<close>, and the view is the
  same whatever the host's and the teams' credentials are; for a host the filter returns
  every message unchanged.
\<close>

theorem non_host_view_has_no_credentials:
  "(role ci \<noteq> Some HOST \<longrightarrow>
      (\<exists>out. filter_game_state (state_msg room) ci = Inr out \<and>
         \<not> carries_credentials out \<and>
         (length toks = length (teams room) \<longrightarrow>
            filter_game_state (state_msg (set_credentials h toks room)) ci = Inr out))) \<and>
   (role ci = Some HOST \<longrightarrow> filter_game_state msg ci = Inr msg)"
proof -
  have host: "filter_game_state msg ci = Inr msg" if "role ci = Some HOST"
    using that by (simp add: filter_game_state_def)
  have other: "\<exists>out. filter_game_state (state_msg room) ci = Inr out \<and>
         \<not> carries_credentials out \<and>
         (length toks = length (teams room) \<longrightarrow>
            filter_game_state (state_msg (set_credentials h toks room)) ci = Inr out)"
    if r: "role ci \<noteq> Some HOST"
  proof -
    obtain fts where fts: "filter_teams ci (map Team_dump (teams room)) = Inr fts"
      "\<not> list_ex team_has_token fts"
      using filter_teams_dump [of ci "teams room"] by blast
    let ?out = "[(''type'', JStr ''GAME_STATE''),
       (''data'', JObj [(''code'', JStr (code room)), (''host_name'', JStr (host_name room)),
          (''status'', JStr (RoomStatus_value (status room))),
          (''teams'', JList fts),
          (''game_state'', optional_dump GameState_dump (game_state room)),
          (''created_at'', datetime_dump (created_at room))])]"
    have a: "filter_game_state (state_msg room) ci = Inr ?out"
      using r fts(1)
      by (simp add: filter_game_state_def state_msg_def model_dump_def py_iter_def)
    have b: "\<not> carries_credentials ?out"
      using fts(2) by (simp add: carries_credentials_def)
    have c: "filter_game_state (state_msg (set_credentials h toks room)) ci = Inr ?out"
      if "length toks = length (teams room)"
      using r fts(1) filter_teams_tokens [OF that, of ci]
      by (simp add: filter_game_state_def state_msg_def model_dump_def py_iter_def
          set_credentials_def)
    show ?thesis using a b c by blast
  qed
  show ?thesis using host other by blast
qed

theorem non_host_view_has_no_credentials_witness:
  "role player_info \<noteq> Some HOST \<and>
   length [''x1'', ''x2'', ''x3'', ''x4'', ''x5''] = length (teams room_placed) \<and>
   \<not> isl (filter_game_state (state_msg room_placed) player_info) \<and>
   \<not> carries_credentials (projr (filter_game_state (state_msg room_placed) player_info)) \<and>
   filter_game_state
     (state_msg (set_credentials ''secret'' [''x1'', ''x2'', ''x3'', ''x4'', ''x5''] room_placed))
     player_info = filter_game_state (state_msg room_placed) player_info \<and>
   role host_info = Some HOST \<and>
   filter_game_state (state_msg room_placed) host_info = Inr (state_msg room_placed)"
proof -
  have r: "role player_info \<noteq> Some HOST" "role host_info = Some HOST"
    by (simp_all add: player_info_def host_info_def)
  have l: "length [''x1'', ''x2'', ''x3'', ''x4'', ''x5''] = length (teams room_placed)"
    by code_simp
  show ?thesis
    using r l
      non_host_view_has_no_credentials [of player_info room_placed
        "[''x1'', ''x2'', ''x3'', ''x4'', ''x5'']" "''secret''" "state_msg room_placed"]
      non_host_view_has_no_credentials [of host_info room_placed
        "[''x1'', ''x2'', ''x3'', ''x4'', ''x5'']" "''secret''" "state_msg room_placed"]
    by auto
qed

section \<open>Project points in a turn\<close>











end
